theory Spec2Isabelle
  imports Complex_Main "HOL-Library.Sublist" "HOL-Library.Multiset"
begin

section \<open>Storage values and the LIKE operator\<close>

text \<open>
  The repositories build their statements with the ORM's query builder and hand them to a
  relational store.  The store side is modelled here: a column holds a number (ids, foreign
  keys and the two timestamps, the latter as a number that grows with time), a text or a
  boolean.  A column that is compared with \<open>LIKE\<close> is read as text: a text as it is, a number
  as its decimal digits, a boolean as \<open>1\<close> or \<open>0\<close>.
\<close>

datatype sqlval = SInt nat | SText string | SBool bool

fun digits :: "nat \<Rightarrow> string" where
  "digits n =
     (if n < 10 then [''0123456789'' ! n]
      else digits (n div 10) @ [''0123456789'' ! (n mod 10)])"

declare digits.simps [simp del]

fun as_text :: "sqlval \<Rightarrow> string" where
  "as_text (SText s) = s"
| "as_text (SInt n) = digits n"
| "as_text (SBool b) = (if b then ''1'' else ''0'')"

text \<open>
  Which characters are equal is the store's business, not the application's: no repository
  and no entity names a collation, so the comparison is that of the collation the store was
  set up with (one that tells upper from lower case, or one that does not).  \<open>LIKE\<close>
  compares character by character.  A collation is given here by a table of characters:
  two characters are equal when \<open>collate\<close> sends them to the same character, and a
  character the table does not list is sent to itself.  The empty table is the comparison
  by code.
\<close>

type_synonym collation = "(char \<times> char) list"

definition collate :: "collation \<Rightarrow> char \<Rightarrow> char" where
  "collate co c = (case map_of co c of None \<Rightarrow> c | Some d \<Rightarrow> d)"

text \<open>
  \<open>like co p s\<close>: under the collation \<open>co\<close> the text \<open>s\<close> matches the pattern \<open>p\<close>.  In a
  pattern \<open>%\<close> stands for any run of characters, \<open>_\<close> for any one character, and a
  backslash takes the character after it literally.
\<close>

fun like :: "collation \<Rightarrow> string \<Rightarrow> string \<Rightarrow> bool" where
  "like co [] s = (s = [])"
| "like co (p # ps) [] = (p = CHR ''%'' \<and> like co ps [])"
| "like co (p # ps) (c # cs) =
     (if p = CHR ''%'' then like co ps (c # cs) \<or> like co (p # ps) cs
      else if p = CHR ''_'' then like co ps cs
      else if p = CHR 0x5C then
        (case ps of [] \<Rightarrow> collate co c = collate co p \<and> cs = []
         | q # qs \<Rightarrow> collate co c = collate co q \<and> like co qs cs)
      else collate co c = collate co p \<and> like co ps cs)"

text \<open>\<open>starts_with co k s\<close>: under the collation \<open>co\<close> the text \<open>s\<close> starts with \<open>k\<close>.\<close>

definition starts_with :: "collation \<Rightarrow> string \<Rightarrow> string \<Rightarrow> bool" where
  "starts_with co k s = prefix (map (collate co) k) (map (collate co) s)"

text \<open>The characters of a keyword that \<open>LIKE\<close> does not take literally.\<close>

definition like_meta :: "char \<Rightarrow> bool" where
  "like_meta c = (c = CHR ''%'' \<or> c = CHR ''_'' \<or> c = CHR 0x5C)"

section \<open>Errors\<close>

text \<open>
  The exception classes that occur: the two HTTP exceptions the services construct, and the
  error with which the ORM rejects a statement the store refuses.  \<open>message\<close> and \<open>code\<close> are
  the two properties the services read from a caught error; an HTTP exception has no \<open>code\<close>
  property (its second constructor argument is a description).
\<close>

datatype exception =
    NotFoundException string
  | BadRequestException string "string option"
  | QueryFailedError string "string option"

fun message :: "exception \<Rightarrow> string" where
  "message (NotFoundException m) = m"
| "message (BadRequestException m d) = m"
| "message (QueryFailedError m c) = m"

fun code :: "exception \<Rightarrow> string option" where
  "code (NotFoundException m) = None"
| "code (BadRequestException m d) = None"
| "code (QueryFailedError m c) = c"

fun isBadRequest :: "exception \<Rightarrow> bool" where
  "isBadRequest (BadRequestException m d) = True"
| "isBadRequest e = False"

section \<open>The query builder\<close>

text \<open>
  A builder collects where-clauses, each with the connector it was added with: \<open>where\<close>
  replaces the list by one clause, \<open>andWhere\<close> and \<open>orWhere\<close> append one.  A condition is a
  comparison of a column path with a bound parameter, or a \<open>Brackets\<close> group of such
  comparisons.  \<open>take\<close> and \<open>skip\<close> are the limit and the offset.  A new builder selects the
  entity of its alias as a whole (\<open>selects\<close> is \<open>None\<close>); \<open>select\<close> with a list of paths
  replaces that selection by the list.
\<close>

datatype wtype = WSimple | WAnd | WOr

datatype atom = Like string string | EqParam string nat

datatype cond = Atom atom | Brackets "(wtype \<times> atom) list"

record query_builder =
  wheres :: "(wtype \<times> cond) list"
  selects :: "string list option"
  qtake :: "nat option"
  qskip :: "nat option"

definition createQueryBuilder :: query_builder where
  "createQueryBuilder = \<lparr>wheres = [], selects = None, qtake = None, qskip = None\<rparr>"

definition where' :: "cond \<Rightarrow> query_builder \<Rightarrow> query_builder" where
  "where' c qb = qb\<lparr>wheres := [(WSimple, c)]\<rparr>"

definition andWhere :: "cond \<Rightarrow> query_builder \<Rightarrow> query_builder" where
  "andWhere c qb = qb\<lparr>wheres := wheres qb @ [(WAnd, c)]\<rparr>"

definition orWhere :: "cond \<Rightarrow> query_builder \<Rightarrow> query_builder" where
  "orWhere c qb = qb\<lparr>wheres := wheres qb @ [(WOr, c)]\<rparr>"

definition select :: "string list \<Rightarrow> query_builder \<Rightarrow> query_builder" where
  "select ps qb = qb\<lparr>selects := Some ps\<rparr>"

definition take' :: "nat \<Rightarrow> query_builder \<Rightarrow> query_builder" where
  "take' n qb = qb\<lparr>qtake := Some n\<rparr>"

definition skip :: "nat \<Rightarrow> query_builder \<Rightarrow> query_builder" where
  "skip n qb = qb\<lparr>qskip := Some n\<rparr>"

text \<open>
  The clauses are written one after the other into the statement, each after the first
  behind its connector, without parentheses; only a \<open>Brackets\<close> group is parenthesised.  The
  store reads \<open>AND\<close> before \<open>OR\<close>, so the list is a disjunction of runs of conjuncts.
  \<open>eval_from ev acc cs\<close> carries in \<open>acc\<close> the value of the run being read.  An empty list is
  no restriction at all (an empty group is written \<open>1=1\<close>).
\<close>

fun eval_from :: "('c \<Rightarrow> bool) \<Rightarrow> bool \<Rightarrow> (wtype \<times> 'c) list \<Rightarrow> bool" where
  "eval_from ev acc [] = acc"
| "eval_from ev acc ((WOr, c) # cs) = (acc \<or> eval_from ev (ev c) cs)"
| "eval_from ev acc ((t, c) # cs) = eval_from ev (acc \<and> ev c) cs"

fun eval_clauses :: "('c \<Rightarrow> bool) \<Rightarrow> (wtype \<times> 'c) list \<Rightarrow> bool" where
  "eval_clauses ev [] = True"
| "eval_clauses ev ((t, c) # cs) = eval_from ev (ev c) cs"

text \<open>
  A schema resolves a column path of the statement to the accessor of that column on a row,
  or to nothing when the statement's tables have no such column.
\<close>

type_synonym 'r schema = "string \<Rightarrow> ('r \<Rightarrow> sqlval) option"

fun eval_atom :: "'r schema \<Rightarrow> collation \<Rightarrow> 'r \<Rightarrow> atom \<Rightarrow> bool" where
  "eval_atom sch co r (Like path pat) =
     (case sch path of None \<Rightarrow> False | Some col \<Rightarrow> like co pat (as_text (col r)))"
| "eval_atom sch co r (EqParam path n) =
     (case sch path of None \<Rightarrow> False | Some col \<Rightarrow> col r = SInt n)"

fun eval_cond :: "'r schema \<Rightarrow> collation \<Rightarrow> 'r \<Rightarrow> cond \<Rightarrow> bool" where
  "eval_cond sch co r (Atom a) = eval_atom sch co r a"
| "eval_cond sch co r (Brackets as) = eval_clauses (eval_atom sch co r) as"

definition matches :: "'r schema \<Rightarrow> collation \<Rightarrow> query_builder \<Rightarrow> 'r \<Rightarrow> bool" where
  "matches sch co qb r = eval_clauses (eval_cond sch co r) (wheres qb)"

fun atom_path :: "atom \<Rightarrow> string" where
  "atom_path (Like path pat) = path"
| "atom_path (EqParam path n) = path"

fun cond_paths :: "cond \<Rightarrow> string list" where
  "cond_paths (Atom a) = [atom_path a]"
| "cond_paths (Brackets as) = map (atom_path \<circ> snd) as"

definition paths :: "query_builder \<Rightarrow> string list" where
  "paths qb =
     (case selects qb of None \<Rightarrow> [] | Some ps \<Rightarrow> ps) @
     concat (map (cond_paths \<circ> snd) (wheres qb))"

definition unknown_column :: "'r schema \<Rightarrow> query_builder \<Rightarrow> bool" where
  "unknown_column sch qb = list_ex (\<lambda>p. sch p = None) (paths qb)"

text \<open>
  The window: the offset is dropped, then the limit is taken.  The builder writes a limit
  only when the number it was given is not zero, so a limit of zero is no limit.
\<close>

definition window :: "query_builder \<Rightarrow> 'r list \<Rightarrow> 'r list" where
  "window qb rows =
     (let rest = (case qskip qb of None \<Rightarrow> rows | Some s \<Rightarrow> drop s rows)
      in case qtake qb of None \<Rightarrow> rest
         | Some t \<Rightarrow> if t = 0 then rest else take t rest)"

text \<open>
  Running a statement.  The store refuses a statement that names a column it does not have;
  otherwise it returns the rows that satisfy the where-clauses under its collation \<open>co\<close>, in
  the order of \<open>ordered\<close>, cut to the window.  \<open>getManyAndCount\<close> returns with the window the
  number of all rows that satisfy the where-clauses.  The result stands for the rows the
  statement returns; the ORM builds its entities from them, one for each primary key among
  the rows, so never more entities than rows.  A statement whose select list is empty
  carries no column of the entity, and no entity is built from its rows: the result is
  empty.  Beyond that, which columns a row carries is not modelled.
\<close>

definition getMany ::
  "'r schema \<Rightarrow> collation \<Rightarrow> 'r list \<Rightarrow> query_builder \<Rightarrow> exception + 'r list" where
  "getMany sch co ordered qb =
     (if unknown_column sch qb
      then Inl (QueryFailedError ''Unknown column'' (Some ''ER_BAD_FIELD_ERROR''))
      else if selects qb = Some [] then Inr []
      else Inr (window qb (filter (matches sch co qb) ordered)))"

definition getManyAndCount ::
  "'r schema \<Rightarrow> collation \<Rightarrow> 'r list \<Rightarrow> query_builder \<Rightarrow> exception + ('r list \<times> nat)" where
  "getManyAndCount sch co ordered qb =
     (if unknown_column sch qb
      then Inl (QueryFailedError ''Unknown column'' (Some ''ER_BAD_FIELD_ERROR''))
      else Inr (window qb (filter (matches sch co qb) ordered),
                length (filter (matches sch co qb) ordered)))"

text \<open>
  \<open>orderBy(createdAt, DESC)\<close>: most recent first.  The statements name no second key, so
  rows of equal time come in the order in which the store yields them, which is the order
  of the list \<open>rows\<close>.
\<close>

definition orderByDesc :: "('r \<Rightarrow> nat) \<Rightarrow> 'r list \<Rightarrow> 'r list" where
  "orderByDesc key rows = rev (sort_key key (rev rows))"

text \<open>The columns of an entity, under the alias the statement gives its table.\<close>

definition aliased :: "string \<Rightarrow> (string \<Rightarrow> ('r \<Rightarrow> sqlval) option) \<Rightarrow> 'r schema" where
  "aliased alias cols path =
     (if take (length alias + 1) path = alias @ ''.''
      then cols (drop (length alias + 1) path) else None)"

text \<open>
  The loop every repository runs over its search fields when a keyword is supplied: the first
  field (index 0) starts the where-clauses, each later one is added with \<open>orWhere\<close>; the
  pattern is the keyword followed by \<open>%\<close>.
\<close>

fun forEachField ::
  "string \<Rightarrow> string \<Rightarrow> nat \<Rightarrow> string list \<Rightarrow> query_builder \<Rightarrow> query_builder" where
  "forEachField alias k index [] qb = qb"
| "forEachField alias k index (field # flds) qb =
     forEachField alias k (Suc index) flds
       (if index = 0 then where' (Atom (Like (alias @ ''.'' @ field) (k @ ''%''))) qb
        else orWhere (Atom (Like (alias @ ''.'' @ field) (k @ ''%''))) qb)"

text \<open>
  The guard \<open>if (keyword) { ... }\<close> around every keyword clause: the clause is added for
  a keyword that is given and not empty.
\<close>

definition whenSupplied ::
  "string option \<Rightarrow> (string \<Rightarrow> query_builder \<Rightarrow> query_builder) \<Rightarrow> query_builder \<Rightarrow> query_builder" where
  "whenSupplied keyword f qb =
     (case keyword of None \<Rightarrow> qb | Some k \<Rightarrow> if k \<noteq> [] then f k qb else qb)"

definition keywordSearch ::
  "string \<Rightarrow> string list \<Rightarrow> string option \<Rightarrow> query_builder \<Rightarrow> query_builder" where
  "keywordSearch alias flds keyword qb =
     whenSupplied keyword (\<lambda>k. forEachField alias k 0 flds) qb"

text \<open>
  \<open>innerJoin\<close> of a relation: every row with the parent row its foreign key refers to.  The
  joined statement sees the columns of both.
\<close>

definition innerJoin :: "('r \<Rightarrow> nat) \<Rightarrow> ('p \<Rightarrow> nat) \<Rightarrow> 'r list \<Rightarrow> 'p list \<Rightarrow> ('r \<times> 'p) list" where
  "innerJoin fk pk rows parents =
     concat (map (\<lambda>r. map (Pair r) (filter (\<lambda>p. pk p = fk r) parents)) rows)"

definition join_schema :: "'r schema \<Rightarrow> 'p schema \<Rightarrow> ('r \<times> 'p) schema" where
  "join_schema s1 s2 path =
     (case s1 path of Some col \<Rightarrow> Some (col \<circ> fst)
      | None \<Rightarrow> (case s2 path of Some col \<Rightarrow> Some (col \<circ> snd) | None \<Rightarrow> None))"

text \<open>What a list query returns: the rows of the page and the number of all matching rows.\<close>

record 'r paged =
  result :: "'r list"
  total :: nat

definition paged_of :: "('j \<Rightarrow> 'r) \<Rightarrow> exception + ('j list \<times> nat) \<Rightarrow> exception + 'r paged" where
  "paged_of main out =
     (case out of Inl e \<Rightarrow> Inl e
      | Inr (rows, n) \<Rightarrow> Inr \<lparr>result = map main rows, total = n\<rparr>)"

section \<open>Entities\<close>

text \<open>
  The entity classes, a relation held as the id it refers to (the foreign key the table
  stores).  A relation column answers to its own name and to the path of the referred id.
\<close>

record TagEntity =
  id :: nat
  name :: string
  createdAt :: nat
  updatedAt :: nat

record BlogEntity =
  id :: nat
  title :: string
  content :: string
  published :: bool
  createdAt :: nat
  updatedAt :: nat
  author :: nat

record BlogTagEntity =
  id :: nat
  createdAt :: nat
  updatedAt :: nat
  blog :: nat
  tag :: nat

record DraftEntity =
  id :: nat
  content :: string
  createdAt :: nat
  updatedAt :: nat
  blog :: nat
  createdBy :: nat

record LikeEntity =
  id :: nat
  createdAt :: nat
  updatedAt :: nat
  blog :: nat
  user :: nat

text \<open>
  Modelled from the spec: the comment entity's class file is not among the sources.  Its
  shape is the spec's (a content, a blog, a user) and the paths the comment repository
  uses (\<open>comment.content\<close>, \<open>comment.blog.id\<close>, \<open>comment.user.id\<close>, \<open>comment.createdAt\<close>).
\<close>

record CommentEntity =
  id :: nat
  content :: string
  createdAt :: nat
  updatedAt :: nat
  blog :: nat
  user :: nat

definition TagEntity_columns :: "string \<Rightarrow> (TagEntity \<Rightarrow> sqlval) option" where
  "TagEntity_columns =
     [''id'' \<mapsto> (\<lambda>t. SInt (TagEntity.id t)),
      ''name'' \<mapsto> (\<lambda>t. SText (TagEntity.name t)),
      ''createdAt'' \<mapsto> (\<lambda>t. SInt (TagEntity.createdAt t)),
      ''updatedAt'' \<mapsto> (\<lambda>t. SInt (TagEntity.updatedAt t))]"

definition BlogEntity_columns :: "string \<Rightarrow> (BlogEntity \<Rightarrow> sqlval) option" where
  "BlogEntity_columns =
     [''id'' \<mapsto> (\<lambda>b. SInt (BlogEntity.id b)),
      ''title'' \<mapsto> (\<lambda>b. SText (BlogEntity.title b)),
      ''content'' \<mapsto> (\<lambda>b. SText (BlogEntity.content b)),
      ''published'' \<mapsto> (\<lambda>b. SBool (BlogEntity.published b)),
      ''createdAt'' \<mapsto> (\<lambda>b. SInt (BlogEntity.createdAt b)),
      ''updatedAt'' \<mapsto> (\<lambda>b. SInt (BlogEntity.updatedAt b)),
      ''author'' \<mapsto> (\<lambda>b. SInt (BlogEntity.author b)),
      ''author.id'' \<mapsto> (\<lambda>b. SInt (BlogEntity.author b))]"

definition BlogTagEntity_columns :: "string \<Rightarrow> (BlogTagEntity \<Rightarrow> sqlval) option" where
  "BlogTagEntity_columns =
     [''id'' \<mapsto> (\<lambda>x. SInt (BlogTagEntity.id x)),
      ''createdAt'' \<mapsto> (\<lambda>x. SInt (BlogTagEntity.createdAt x)),
      ''updatedAt'' \<mapsto> (\<lambda>x. SInt (BlogTagEntity.updatedAt x)),
      ''blog'' \<mapsto> (\<lambda>x. SInt (BlogTagEntity.blog x)),
      ''blog.id'' \<mapsto> (\<lambda>x. SInt (BlogTagEntity.blog x)),
      ''tag'' \<mapsto> (\<lambda>x. SInt (BlogTagEntity.tag x)),
      ''tag.id'' \<mapsto> (\<lambda>x. SInt (BlogTagEntity.tag x))]"

definition DraftEntity_columns :: "string \<Rightarrow> (DraftEntity \<Rightarrow> sqlval) option" where
  "DraftEntity_columns =
     [''id'' \<mapsto> (\<lambda>d. SInt (DraftEntity.id d)),
      ''content'' \<mapsto> (\<lambda>d. SText (DraftEntity.content d)),
      ''createdAt'' \<mapsto> (\<lambda>d. SInt (DraftEntity.createdAt d)),
      ''updatedAt'' \<mapsto> (\<lambda>d. SInt (DraftEntity.updatedAt d)),
      ''blog'' \<mapsto> (\<lambda>d. SInt (DraftEntity.blog d)),
      ''blog.id'' \<mapsto> (\<lambda>d. SInt (DraftEntity.blog d)),
      ''createdBy'' \<mapsto> (\<lambda>d. SInt (DraftEntity.createdBy d)),
      ''createdBy.id'' \<mapsto> (\<lambda>d. SInt (DraftEntity.createdBy d))]"

definition LikeEntity_columns :: "string \<Rightarrow> (LikeEntity \<Rightarrow> sqlval) option" where
  "LikeEntity_columns =
     [''id'' \<mapsto> (\<lambda>l. SInt (LikeEntity.id l)),
      ''createdAt'' \<mapsto> (\<lambda>l. SInt (LikeEntity.createdAt l)),
      ''updatedAt'' \<mapsto> (\<lambda>l. SInt (LikeEntity.updatedAt l)),
      ''blog'' \<mapsto> (\<lambda>l. SInt (LikeEntity.blog l)),
      ''blog.id'' \<mapsto> (\<lambda>l. SInt (LikeEntity.blog l)),
      ''user'' \<mapsto> (\<lambda>l. SInt (LikeEntity.user l)),
      ''user.id'' \<mapsto> (\<lambda>l. SInt (LikeEntity.user l))]"

definition CommentEntity_columns :: "string \<Rightarrow> (CommentEntity \<Rightarrow> sqlval) option" where
  "CommentEntity_columns =
     [''id'' \<mapsto> (\<lambda>c. SInt (CommentEntity.id c)),
      ''content'' \<mapsto> (\<lambda>c. SText (CommentEntity.content c)),
      ''createdAt'' \<mapsto> (\<lambda>c. SInt (CommentEntity.createdAt c)),
      ''updatedAt'' \<mapsto> (\<lambda>c. SInt (CommentEntity.updatedAt c)),
      ''blog'' \<mapsto> (\<lambda>c. SInt (CommentEntity.blog c)),
      ''blog.id'' \<mapsto> (\<lambda>c. SInt (CommentEntity.blog c)),
      ''user'' \<mapsto> (\<lambda>c. SInt (CommentEntity.user c)),
      ''user.id'' \<mapsto> (\<lambda>c. SInt (CommentEntity.user c))]"

text \<open>
  The store: its collation and its tables.  A table is the list of its rows in the order in
  which the store yields them to a statement; a statement that asks for no order gets them
  in that order, and an \<open>ORDER BY\<close> leaves rows of equal key in it.  The store is free to yield
  the rows in another order to the next statement: that is a store with the same rows in
  another arrangement.
\<close>

record database =
  collation :: collation
  tags :: "TagEntity list"
  blogs :: "BlogEntity list"
  blogTags :: "BlogTagEntity list"
  drafts :: "DraftEntity list"
  comments :: "CommentEntity list"
  likes :: "LikeEntity list"

section \<open>Repositories\<close>

subsection \<open>TagRepository\<close>

definition TagRepository_findById :: "database \<Rightarrow> nat \<Rightarrow> exception + TagEntity option" where
  "TagRepository_findById db i = Inr (find (\<lambda>t. TagEntity.id t = i) (tags db))"

definition TagRepository_getQueryBuilder :: "string list \<Rightarrow> string option \<Rightarrow> query_builder" where
  "TagRepository_getQueryBuilder flds keyword =
     keywordSearch ''tag'' flds keyword createQueryBuilder"

definition TagRepository_getAll ::
  "database \<Rightarrow> nat \<Rightarrow> nat \<Rightarrow> string option \<Rightarrow> exception + TagEntity paged" where
  "TagRepository_getAll db skp tk searchTerm =
     paged_of (\<lambda>t. t)
       (getManyAndCount (aliased ''tag'' TagEntity_columns) (collation db)
          (orderByDesc TagEntity.createdAt (tags db))
          (skip skp (take' tk (TagRepository_getQueryBuilder [''name''] searchTerm))))"

definition TagRepository_findAllDropdown ::
  "database \<Rightarrow> string list \<Rightarrow> string option \<Rightarrow> exception + TagEntity list" where
  "TagRepository_findAllDropdown db flds keyword =
     getMany (aliased ''tag'' TagEntity_columns) (collation db) (tags db)
       (take' 5 (select (map (\<lambda>field. ''tag.'' @ field) flds)
          (TagRepository_getQueryBuilder flds keyword)))"

subsection \<open>BlogRepository\<close>

definition BlogRepository_findById ::
  "database \<Rightarrow> nat \<Rightarrow> nat \<Rightarrow> exception + BlogEntity option" where
  "BlogRepository_findById db userId i =
     Inr (find (\<lambda>b. BlogEntity.id b = i \<and> BlogEntity.author b = userId) (blogs db))"

definition BlogRepository_getQueryBuilder ::
  "nat \<Rightarrow> string list \<Rightarrow> string option \<Rightarrow> query_builder" where
  "BlogRepository_getQueryBuilder userId flds keyword =
     andWhere (Atom (EqParam ''blog.author.id'' userId))
       (keywordSearch ''blog'' flds keyword createQueryBuilder)"

definition BlogRepository_getAll ::
  "database \<Rightarrow> nat \<Rightarrow> nat \<Rightarrow> nat \<Rightarrow> string option \<Rightarrow> exception + BlogEntity paged" where
  "BlogRepository_getAll db userId skp tk searchTerm =
     paged_of (\<lambda>b. b)
       (getManyAndCount (aliased ''blog'' BlogEntity_columns) (collation db)
          (orderByDesc BlogEntity.createdAt (blogs db))
          (skip skp (take' tk
             (BlogRepository_getQueryBuilder userId
                [''title'', ''content'', ''published''] searchTerm))))"

definition BlogRepository_findAllDropdown ::
  "database \<Rightarrow> nat \<Rightarrow> string list \<Rightarrow> string option \<Rightarrow> exception + BlogEntity list" where
  "BlogRepository_findAllDropdown db userId flds keyword =
     getMany (aliased ''blog'' BlogEntity_columns) (collation db) (blogs db)
       (take' 5 (select (map (\<lambda>field. ''blog.'' @ field) flds)
          (BlogRepository_getQueryBuilder userId flds keyword)))"

subsection \<open>DraftRepository\<close>

definition DraftRepository_findById ::
  "database \<Rightarrow> nat \<Rightarrow> nat \<Rightarrow> exception + DraftEntity option" where
  "DraftRepository_findById db userId i =
     Inr (find (\<lambda>d. DraftEntity.id d = i \<and> DraftEntity.createdBy d = userId) (drafts db))"

definition DraftRepository_getQueryBuilder ::
  "nat \<Rightarrow> string list \<Rightarrow> string option \<Rightarrow> query_builder" where
  "DraftRepository_getQueryBuilder userId flds keyword =
     andWhere (Atom (EqParam ''draft.createdBy.id'' userId))
       (keywordSearch ''draft'' flds keyword createQueryBuilder)"

definition DraftRepository_getAll ::
  "database \<Rightarrow> nat \<Rightarrow> nat \<Rightarrow> nat \<Rightarrow> string option \<Rightarrow> exception + DraftEntity paged" where
  "DraftRepository_getAll db userId skp tk searchTerm =
     paged_of fst
       (getManyAndCount
          (join_schema (aliased ''draft'' DraftEntity_columns) (aliased ''blog'' BlogEntity_columns)) (collation db)
          (orderByDesc (DraftEntity.createdAt \<circ> fst)
             (innerJoin DraftEntity.blog BlogEntity.id (drafts db) (blogs db)))
          (skip skp (take' tk
             (whenSupplied searchTerm
                (\<lambda>k. orWhere (Atom (Like ''blog.title'' (k @ ''%''))))
                (DraftRepository_getQueryBuilder userId [''content''] searchTerm)))))"

definition DraftRepository_findAllDropdown ::
  "database \<Rightarrow> nat \<Rightarrow> string list \<Rightarrow> string option \<Rightarrow> exception + DraftEntity list" where
  "DraftRepository_findAllDropdown db userId flds keyword =
     getMany (aliased ''draft'' DraftEntity_columns) (collation db) (drafts db)
       (take' 5 (select (map (\<lambda>field. ''draft.'' @ field) flds)
          (DraftRepository_getQueryBuilder userId flds keyword)))"

definition DraftRepository_getDraftsByBlogId ::
  "database \<Rightarrow> nat \<Rightarrow> nat \<Rightarrow> nat \<Rightarrow> nat \<Rightarrow> string option \<Rightarrow> exception + DraftEntity paged" where
  "DraftRepository_getDraftsByBlogId db userId blogId skp tk searchTerm =
     paged_of (\<lambda>d. d)
       (getManyAndCount (aliased ''draft'' DraftEntity_columns) (collation db)
          (orderByDesc DraftEntity.createdAt (drafts db))
          (skip skp (take' tk
             (whenSupplied searchTerm
                (\<lambda>k. andWhere (Brackets
                   (map (\<lambda>field. (WOr, Like (''draft.'' @ field) (k @ ''%''))) [''content''])))
                (andWhere (Atom (EqParam ''draft.blog.id'' blogId))
                   (andWhere (Atom (EqParam ''draft.createdBy.id'' userId))
                      createQueryBuilder))))))"

subsection \<open>CommentRepository\<close>

definition CommentRepository_findById ::
  "database \<Rightarrow> nat \<Rightarrow> nat \<Rightarrow> exception + CommentEntity option" where
  "CommentRepository_findById db userId i =
     Inr (find (\<lambda>c. CommentEntity.id c = i \<and> CommentEntity.user c = userId) (comments db))"

definition CommentRepository_getQueryBuilder ::
  "nat \<Rightarrow> string list \<Rightarrow> string option \<Rightarrow> query_builder" where
  "CommentRepository_getQueryBuilder userId flds keyword =
     andWhere (Atom (EqParam ''comment.user.id'' userId))
       (keywordSearch ''comment'' flds keyword createQueryBuilder)"

definition CommentRepository_getAll ::
  "database \<Rightarrow> nat \<Rightarrow> nat \<Rightarrow> nat \<Rightarrow> string option \<Rightarrow> exception + CommentEntity paged" where
  "CommentRepository_getAll db userId skp tk searchTerm =
     paged_of fst
       (getManyAndCount
          (join_schema (aliased ''comment'' CommentEntity_columns)
             (aliased ''blog'' BlogEntity_columns)) (collation db)
          (orderByDesc (CommentEntity.createdAt \<circ> fst)
             (innerJoin CommentEntity.blog BlogEntity.id (comments db) (blogs db)))
          (skip skp (take' tk
             (whenSupplied searchTerm
                (\<lambda>k. orWhere (Atom (Like ''blog.title'' (k @ ''%''))))
                (CommentRepository_getQueryBuilder userId [''content''] searchTerm)))))"

definition CommentRepository_findAllDropdown ::
  "database \<Rightarrow> nat \<Rightarrow> string list \<Rightarrow> string option \<Rightarrow> exception + CommentEntity list" where
  "CommentRepository_findAllDropdown db userId flds keyword =
     getMany (aliased ''comment'' CommentEntity_columns) (collation db) (comments db)
       (take' 5 (select (map (\<lambda>field. ''comment.'' @ field) flds)
          (CommentRepository_getQueryBuilder userId flds keyword)))"

definition CommentRepository_getCommentsByBlogId ::
  "database \<Rightarrow> nat \<Rightarrow> nat \<Rightarrow> nat \<Rightarrow> nat \<Rightarrow> string option \<Rightarrow> exception + CommentEntity paged" where
  "CommentRepository_getCommentsByBlogId db userId blogId skp tk searchTerm =
     paged_of (\<lambda>c. c)
       (getManyAndCount (aliased ''comment'' CommentEntity_columns) (collation db)
          (orderByDesc CommentEntity.createdAt (comments db))
          (skip skp (take' tk
             (whenSupplied searchTerm
                (\<lambda>k. andWhere (Brackets
                   (map (\<lambda>field. (WOr, Like (''comment.'' @ field) (k @ ''%''))) [''content''])))
                (andWhere (Atom (EqParam ''comment.blog.id'' blogId))
                   (andWhere (Atom (EqParam ''comment.user.id'' userId))
                      createQueryBuilder))))))"

subsection \<open>LikeRepository\<close>

definition LikeRepository_findById ::
  "database \<Rightarrow> nat \<Rightarrow> nat \<Rightarrow> exception + LikeEntity option" where
  "LikeRepository_findById db userId i =
     Inr (find (\<lambda>l. LikeEntity.id l = i \<and> LikeEntity.user l = userId) (likes db))"

definition LikeRepository_getQueryBuilder ::
  "nat \<Rightarrow> string list \<Rightarrow> string option \<Rightarrow> query_builder" where
  "LikeRepository_getQueryBuilder userId flds keyword =
     andWhere (Atom (EqParam ''like.user.id'' userId))
       (keywordSearch ''like'' flds keyword createQueryBuilder)"

definition LikeRepository_getAll ::
  "database \<Rightarrow> nat \<Rightarrow> nat \<Rightarrow> nat \<Rightarrow> string option \<Rightarrow> exception + LikeEntity paged" where
  "LikeRepository_getAll db userId skp tk searchTerm =
     paged_of fst
       (getManyAndCount
          (join_schema (aliased ''like'' LikeEntity_columns) (aliased ''blog'' BlogEntity_columns)) (collation db)
          (orderByDesc (LikeEntity.createdAt \<circ> fst)
             (innerJoin LikeEntity.blog BlogEntity.id (likes db) (blogs db)))
          (skip skp (take' tk
             (whenSupplied searchTerm
                (\<lambda>k. orWhere (Atom (Like ''blog.title'' (k @ ''%''))))
                (LikeRepository_getQueryBuilder userId [] searchTerm)))))"

definition LikeRepository_findAllDropdown ::
  "database \<Rightarrow> nat \<Rightarrow> string list \<Rightarrow> string option \<Rightarrow> exception + LikeEntity list" where
  "LikeRepository_findAllDropdown db userId flds keyword =
     getMany (aliased ''like'' LikeEntity_columns) (collation db) (likes db)
       (take' 5 (select (map (\<lambda>field. ''like.'' @ field) flds)
          (LikeRepository_getQueryBuilder userId flds keyword)))"

definition LikeRepository_getLikesByBlogId ::
  "database \<Rightarrow> nat \<Rightarrow> nat \<Rightarrow> nat \<Rightarrow> nat \<Rightarrow> string option \<Rightarrow> exception + LikeEntity paged" where
  "LikeRepository_getLikesByBlogId db userId blogId skp tk searchTerm =
     paged_of (\<lambda>l. l)
       (getManyAndCount (aliased ''like'' LikeEntity_columns) (collation db)
          (orderByDesc LikeEntity.createdAt (likes db))
          (skip skp (take' tk
             (whenSupplied searchTerm
                (\<lambda>k. andWhere (Brackets
                   (map (\<lambda>field. (WOr, Like (''like.'' @ field) (k @ ''%''))) [])))
                (andWhere (Atom (EqParam ''like.blog.id'' blogId))
                   (andWhere (Atom (EqParam ''like.user.id'' userId))
                      createQueryBuilder))))))"

subsection \<open>BlogTagRepository\<close>

definition BlogTagRepository_getQueryBuilder ::
  "string list \<Rightarrow> string option \<Rightarrow> query_builder" where
  "BlogTagRepository_getQueryBuilder flds keyword =
     keywordSearch ''blogTag'' flds keyword createQueryBuilder"

definition BlogTagRepository_findAllDropdown ::
  "database \<Rightarrow> string list \<Rightarrow> string option \<Rightarrow> exception + BlogTagEntity list" where
  "BlogTagRepository_findAllDropdown db flds keyword =
     getMany (aliased ''blogTag'' BlogTagEntity_columns) (collation db) (blogTags db)
       (take' 5 (select (map (\<lambda>field. ''blogTag.'' @ field) flds)
          (BlogTagRepository_getQueryBuilder flds keyword)))"

definition BlogTagRepository_getBlogTagsByBlogId ::
  "database \<Rightarrow> nat \<Rightarrow> nat \<Rightarrow> nat \<Rightarrow> string option \<Rightarrow> exception + BlogTagEntity paged" where
  "BlogTagRepository_getBlogTagsByBlogId db blogId skp tk searchTerm =
     paged_of fst
       (getManyAndCount
          (join_schema (aliased ''blogTag'' BlogTagEntity_columns)
             (aliased ''tag'' TagEntity_columns)) (collation db)
          (orderByDesc (BlogTagEntity.createdAt \<circ> fst)
             (innerJoin BlogTagEntity.tag TagEntity.id (blogTags db) (tags db)))
          (skip skp (take' tk
             (whenSupplied searchTerm
                (\<lambda>k. andWhere (Brackets
                   ((WOr, Like ''tag.name'' (k @ ''%'')) #
                    map (\<lambda>field. (WOr, Like (''blogTag.'' @ field) (k @ ''%''))) [])))
                (andWhere (Atom (EqParam ''blogTag.blog.id'' blogId)) createQueryBuilder)))))"

definition BlogTagRepository_getBlogTagsByTagId ::
  "database \<Rightarrow> nat \<Rightarrow> nat \<Rightarrow> nat \<Rightarrow> string option \<Rightarrow> exception + BlogTagEntity paged" where
  "BlogTagRepository_getBlogTagsByTagId db tagId skp tk searchTerm =
     paged_of fst
       (getManyAndCount
          (join_schema (aliased ''blogTag'' BlogTagEntity_columns)
             (aliased ''blog'' BlogEntity_columns)) (collation db)
          (orderByDesc (BlogTagEntity.createdAt \<circ> fst)
             (innerJoin BlogTagEntity.blog BlogEntity.id (blogTags db) (blogs db)))
          (skip skp (take' tk
             (whenSupplied searchTerm
                (\<lambda>k. andWhere (Brackets
                   ((WOr, Like ''blog.title'' (k @ ''%'')) #
                    map (\<lambda>field. (WOr, Like (''blogTag.'' @ field) (k @ ''%''))) [])))
                (andWhere (Atom (EqParam ''blogTag.tag.id'' tagId)) createQueryBuilder)))))"

section \<open>Writing rows\<close>

text \<open>
  \<open>merge\<close> copies into the loaded entity the properties of the partial entity that are
  defined and leaves the others; a relation given as an object with an undefined id defines
  nothing.  The partial entities are the \<open>DeepPartial\<close> objects the services build.
\<close>

record DeepPartial_TagEntity =
  name :: "string option"

record DeepPartial_BlogEntity =
  title :: "string option"
  content :: "string option"
  published :: "bool option"
  author :: "nat option"

record DeepPartial_DraftEntity =
  content :: "string option"
  blog :: "nat option"
  createdBy :: "nat option"

definition orElse :: "'a option \<Rightarrow> 'a \<Rightarrow> 'a" where
  "orElse v old = (case v of None \<Rightarrow> old | Some x \<Rightarrow> x)"

definition TagRepository_merge :: "TagEntity \<Rightarrow> DeepPartial_TagEntity \<Rightarrow> TagEntity" where
  "TagRepository_merge theTag updateData =
     theTag\<lparr>TagEntity.name := orElse (DeepPartial_TagEntity.name updateData) (TagEntity.name theTag)\<rparr>"

definition BlogRepository_merge :: "BlogEntity \<Rightarrow> DeepPartial_BlogEntity \<Rightarrow> BlogEntity" where
  "BlogRepository_merge theBlog updateData =
     theBlog\<lparr>BlogEntity.title :=
            orElse (DeepPartial_BlogEntity.title updateData) (BlogEntity.title theBlog),
          BlogEntity.content :=
            orElse (DeepPartial_BlogEntity.content updateData) (BlogEntity.content theBlog),
          BlogEntity.published :=
            orElse (DeepPartial_BlogEntity.published updateData) (BlogEntity.published theBlog),
          BlogEntity.author :=
            orElse (DeepPartial_BlogEntity.author updateData) (BlogEntity.author theBlog)\<rparr>"

definition DraftRepository_merge :: "DraftEntity \<Rightarrow> DeepPartial_DraftEntity \<Rightarrow> DraftEntity" where
  "DraftRepository_merge theDraft updateData =
     theDraft\<lparr>DraftEntity.content :=
             orElse (DeepPartial_DraftEntity.content updateData) (DraftEntity.content theDraft),
           DraftEntity.blog :=
             orElse (DeepPartial_DraftEntity.blog updateData) (DraftEntity.blog theDraft),
           DraftEntity.createdBy :=
             orElse (DeepPartial_DraftEntity.createdBy updateData)
               (DraftEntity.createdBy theDraft)\<rparr>"

text \<open>
  \<open>save\<close> of an entity with an id.  When the table has a row of that id and the entity differs
  from it, the row is rewritten and the store sets its update timestamp (the
  \<open>UpdateDateColumn\<close>) to the time \<open>now\<close> of the statement; when nothing differs no statement
  is issued.  When the table has no such row, the entity is inserted, both timestamps set.
  \<open>upsert\<close> returns the saved entity and the new table.
\<close>

definition upsert ::
  "('r \<Rightarrow> nat) \<Rightarrow> (nat \<Rightarrow> 'r \<Rightarrow> 'r) \<Rightarrow> (nat \<Rightarrow> 'r \<Rightarrow> 'r) \<Rightarrow> nat \<Rightarrow> 'r \<Rightarrow> 'r list \<Rightarrow> 'r \<times> 'r list" where
  "upsert pk inserted updated now e rows =
     (case find (\<lambda>r. pk r = pk e) rows of
        None \<Rightarrow> (inserted now e, rows @ [inserted now e])
      | Some old \<Rightarrow>
          if e = old then (e, rows)
          else (updated now e, map (\<lambda>r. if pk r = pk e then updated now e else r) rows))"

definition TagRepository_save ::
  "database \<Rightarrow> nat \<Rightarrow> TagEntity \<Rightarrow> exception + (TagEntity \<times> database)" where
  "TagRepository_save db now theTag =
     (case upsert TagEntity.id
             (\<lambda>n t. t\<lparr>TagEntity.createdAt := n, TagEntity.updatedAt := n\<rparr>)
             (\<lambda>n t. t\<lparr>TagEntity.updatedAt := n\<rparr>) now theTag (tags db) of
        (saved, rows) \<Rightarrow> Inr (saved, db\<lparr>tags := rows\<rparr>))"

definition BlogRepository_save ::
  "database \<Rightarrow> nat \<Rightarrow> BlogEntity \<Rightarrow> exception + (BlogEntity \<times> database)" where
  "BlogRepository_save db now theBlog =
     (case upsert BlogEntity.id
             (\<lambda>n b. b\<lparr>BlogEntity.createdAt := n, BlogEntity.updatedAt := n\<rparr>)
             (\<lambda>n b. b\<lparr>BlogEntity.updatedAt := n\<rparr>) now theBlog (blogs db) of
        (saved, rows) \<Rightarrow> Inr (saved, db\<lparr>blogs := rows\<rparr>))"

text \<open>A draft refers to a blog: the store refuses a row whose blog does not exist.\<close>

definition DraftRepository_save ::
  "database \<Rightarrow> nat \<Rightarrow> DraftEntity \<Rightarrow> exception + (DraftEntity \<times> database)" where
  "DraftRepository_save db now theDraft =
     (if \<not> list_ex (\<lambda>b. BlogEntity.id b = DraftEntity.blog theDraft) (blogs db)
      then Inl (QueryFailedError ''a foreign key constraint fails''
                  (Some ''ER_NO_REFERENCED_ROW_2''))
      else case upsert DraftEntity.id
                  (\<lambda>n d. d\<lparr>DraftEntity.createdAt := n, DraftEntity.updatedAt := n\<rparr>)
                  (\<lambda>n d. d\<lparr>DraftEntity.updatedAt := n\<rparr>) now theDraft (drafts db) of
             (saved, rows) \<Rightarrow> Inr (saved, db\<lparr>drafts := rows\<rparr>))"

section \<open>Services\<close>

text \<open>
  An asynchronous call is modelled by its outcome: \<open>Inl\<close> the error it rejects with, \<open>Inr\<close>
  its value.  Inside \<open>try\<close>, an awaited call that rejects runs the \<open>catch\<close> block, which throws
  \<open>BadRequestException(e.message, e.code)\<close>.  A promise that is returned without \<open>await\<close>
  has left the \<open>try\<close> block when it settles: its outcome is the outcome of the service method
  as it is.
\<close>

definition catchBlock :: "exception \<Rightarrow> exception + 'a" where
  "catchBlock e = Inl (BadRequestException (message e) (code e))"

record UpdateTagDto =
  name :: "string option"

record UpdateBlogDto =
  title :: "string option"
  content :: "string option"
  published :: "bool option"

record UpdateDraftDto =
  blogId :: "nat option"
  content :: "string option"

subsection \<open>TagService\<close>

definition TagService_getAllTags ::
  "database \<Rightarrow> nat \<Rightarrow> nat \<Rightarrow> string option \<Rightarrow> exception + TagEntity paged" where
  "TagService_getAllTags db skp tk search =
     (case TagRepository_getAll db skp tk search of
        Inl e \<Rightarrow> catchBlock e
      | Inr page \<Rightarrow> Inr page)"

definition TagService_getTagById :: "database \<Rightarrow> nat \<Rightarrow> exception + TagEntity" where
  "TagService_getTagById db i =
     (case TagRepository_findById db i of
        Inl e \<Rightarrow> catchBlock e
      | Inr None \<Rightarrow> catchBlock (NotFoundException ''TagEntity not found'')
      | Inr (Some theTag) \<Rightarrow> Inr theTag)"

definition TagService_updateTag ::
  "database \<Rightarrow> nat \<Rightarrow> nat \<Rightarrow> UpdateTagDto \<Rightarrow> exception + (TagEntity \<times> database)" where
  "TagService_updateTag db now i updateTagDto =
     (case TagService_getTagById db i of
        Inl e \<Rightarrow> catchBlock e
      | Inr theTag \<Rightarrow>
          TagRepository_save db now
            (TagRepository_merge theTag
               \<lparr>DeepPartial_TagEntity.name = UpdateTagDto.name updateTagDto\<rparr>))"

definition TagService_findAllDropdownData ::
  "database \<Rightarrow> string list \<Rightarrow> string option \<Rightarrow> exception + TagEntity list" where
  "TagService_findAllDropdownData db flds keyword =
     TagRepository_findAllDropdown db flds keyword"

subsection \<open>BlogService\<close>

definition BlogService_getAllBlogs ::
  "database \<Rightarrow> nat \<Rightarrow> nat \<Rightarrow> nat \<Rightarrow> string option \<Rightarrow> exception + BlogEntity paged" where
  "BlogService_getAllBlogs db userId skp tk search =
     (case BlogRepository_getAll db userId skp tk search of
        Inl e \<Rightarrow> catchBlock e
      | Inr page \<Rightarrow> Inr page)"

definition BlogService_getBlogById :: "database \<Rightarrow> nat \<Rightarrow> nat \<Rightarrow> exception + BlogEntity" where
  "BlogService_getBlogById db userId i =
     (case BlogRepository_findById db userId i of
        Inl e \<Rightarrow> catchBlock e
      | Inr None \<Rightarrow> catchBlock (NotFoundException ''BlogEntity not found'')
      | Inr (Some theBlog) \<Rightarrow> Inr theBlog)"

definition BlogService_updateBlog ::
  "database \<Rightarrow> nat \<Rightarrow> nat \<Rightarrow> nat \<Rightarrow> UpdateBlogDto \<Rightarrow> exception + (BlogEntity \<times> database)" where
  "BlogService_updateBlog db now userId i updateBlogDto =
     (case BlogService_getBlogById db userId i of
        Inl e \<Rightarrow> catchBlock e
      | Inr theBlog \<Rightarrow>
          BlogRepository_save db now
            (BlogRepository_merge theBlog
               \<lparr>DeepPartial_BlogEntity.title = UpdateBlogDto.title updateBlogDto,
                DeepPartial_BlogEntity.content = UpdateBlogDto.content updateBlogDto,
                DeepPartial_BlogEntity.published = UpdateBlogDto.published updateBlogDto,
                DeepPartial_BlogEntity.author = Some userId\<rparr>))"

definition BlogService_findAllDropdownData ::
  "database \<Rightarrow> nat \<Rightarrow> string list \<Rightarrow> string option \<Rightarrow> exception + BlogEntity list" where
  "BlogService_findAllDropdownData db userId flds keyword =
     BlogRepository_findAllDropdown db userId flds keyword"

subsection \<open>DraftService\<close>

definition DraftService_getDraftById :: "database \<Rightarrow> nat \<Rightarrow> nat \<Rightarrow> exception + DraftEntity" where
  "DraftService_getDraftById db userId i =
     (case DraftRepository_findById db userId i of
        Inl e \<Rightarrow> catchBlock e
      | Inr None \<Rightarrow> catchBlock (NotFoundException ''DraftEntity not found'')
      | Inr (Some theDraft) \<Rightarrow> Inr theDraft)"

definition DraftService_updateDraft ::
  "database \<Rightarrow> nat \<Rightarrow> nat \<Rightarrow> nat \<Rightarrow> UpdateDraftDto \<Rightarrow> exception + (DraftEntity \<times> database)" where
  "DraftService_updateDraft db now userId i updateDraftDto =
     (case DraftService_getDraftById db userId i of
        Inl e \<Rightarrow> catchBlock e
      | Inr theDraft \<Rightarrow>
          DraftRepository_save db now
            (DraftRepository_merge theDraft
               \<lparr>DeepPartial_DraftEntity.content = UpdateDraftDto.content updateDraftDto,
                DeepPartial_DraftEntity.blog = UpdateDraftDto.blogId updateDraftDto,
                DeepPartial_DraftEntity.createdBy = Some userId\<rparr>))"

subsection \<open>CommentService and LikeService\<close>

definition CommentService_getCommentById ::
  "database \<Rightarrow> nat \<Rightarrow> nat \<Rightarrow> exception + CommentEntity" where
  "CommentService_getCommentById db userId i =
     (case CommentRepository_findById db userId i of
        Inl e \<Rightarrow> catchBlock e
      | Inr None \<Rightarrow> catchBlock (NotFoundException ''CommentEntity not found'')
      | Inr (Some theComment) \<Rightarrow> Inr theComment)"

definition LikeService_getLikeById :: "database \<Rightarrow> nat \<Rightarrow> nat \<Rightarrow> exception + LikeEntity" where
  "LikeService_getLikeById db userId i =
     (case LikeRepository_findById db userId i of
        Inl e \<Rightarrow> catchBlock e
      | Inr None \<Rightarrow> catchBlock (NotFoundException ''LikeEntity not found'')
      | Inr (Some theLike) \<Rightarrow> Inr theLike)"

section \<open>Controller: the pagination parameters\<close>

text \<open>
  A JavaScript number is \<open>NaN\<close> or a numeric value.  \<open>Math.max\<close> is \<open>NaN\<close> as soon as one
  argument is, and so are difference and product; every comparison with \<open>NaN\<close> is false.
  That is all of the arithmetic the statements below rest on: they are about \<open>NaN\<close> and the
  defaults.  The numeric values are taken as rationals, so the rounding of large doubles
  and the two infinities are left out.
\<close>

datatype jsnum = NaN | Num rat

fun Math_max :: "jsnum \<Rightarrow> jsnum \<Rightarrow> jsnum" where
  "Math_max (Num a) (Num b) = Num (max a b)"
| "Math_max x y = NaN"

fun js_minus :: "jsnum \<Rightarrow> jsnum \<Rightarrow> jsnum" where
  "js_minus (Num a) (Num b) = Num (a - b)"
| "js_minus x y = NaN"

fun js_times :: "jsnum \<Rightarrow> jsnum \<Rightarrow> jsnum" where
  "js_times (Num a) (Num b) = Num (a * b)"
| "js_times x y = NaN"

fun js_ge :: "jsnum \<Rightarrow> jsnum \<Rightarrow> bool" where
  "js_ge (Num a) (Num b) = (b \<le> a)"
| "js_ge x y = False"

text \<open>
  A query parameter is absent (\<open>None\<close>), and then the default of the handler's signature
  stands in, or supplied; \<open>Some v\<close> is a supplied text whose \<open>Number(...)\<close> is \<open>v\<close>.  A text
  that is no numeric literal, such as \<open>abc\<close>, has \<open>Number(...) = NaN\<close>.  The handler's result
  here is the pair \<open>(skip, itemsPerPage)\<close> it hands to \<open>tagService.getAllTags\<close>.
\<close>

definition TagController_getAllTags :: "jsnum option \<Rightarrow> jsnum option \<Rightarrow> jsnum \<times> jsnum" where
  "TagController_getAllTags page limit =
     (let pageNumber = Math_max (Num 1) (orElse page (Num 1));
          itemsPerPage = Math_max (Num 1) (orElse limit (Num 10));
          skp = js_times (js_minus pageNumber (Num 1)) itemsPerPage
      in (skp, itemsPerPage))"

section \<open>A field read as text\<close>

text \<open>
  What a search field of a row is when read as text: the text of the column of that name
  (the empty text for a name that is no column, which no statement gets to read).
\<close>

definition read_as_text :: "(string \<Rightarrow> ('r \<Rightarrow> sqlval) option) \<Rightarrow> string \<Rightarrow> 'r \<Rightarrow> string" where
  "read_as_text cols field r = (case cols field of None \<Rightarrow> [] | Some col \<Rightarrow> as_text (col r))"

section \<open>The dataset of a list query\<close>

text \<open>
  The rows a list query's statement matches, most recent first, rows of equal time as the
  store yields them: what the pages of the query are windows of.
\<close>

definition TagRepository_dataset :: "database \<Rightarrow> string option \<Rightarrow> TagEntity list" where
  "TagRepository_dataset db searchTerm =
     filter (matches (aliased ''tag'' TagEntity_columns) (collation db)
               (TagRepository_getQueryBuilder [''name''] searchTerm))
       (orderByDesc TagEntity.createdAt (tags db))"

definition BlogRepository_dataset :: "database \<Rightarrow> nat \<Rightarrow> string option \<Rightarrow> BlogEntity list" where
  "BlogRepository_dataset db userId searchTerm =
     filter (matches (aliased ''blog'' BlogEntity_columns) (collation db)
               (BlogRepository_getQueryBuilder userId
                  [''title'', ''content'', ''published''] searchTerm))
       (orderByDesc BlogEntity.createdAt (blogs db))"

section \<open>An example store\<close>

text \<open>
  Two users, 1 and 2.  User 1 wrote the first and the third blog, user 2 the second; each
  has a draft on the own blog, and a comment and a like on the other's.  Seven tags.  The
  store's collation does not tell upper from lower case in the letters \<open>A\<close> to \<open>Z\<close>.
\<close>

definition case_insensitive :: collation where
  "case_insensitive = zip ''ABCDEFGHIJKLMNOPQRSTUVWXYZ'' ''abcdefghijklmnopqrstuvwxyz''"

definition tag_row :: "nat \<Rightarrow> string \<Rightarrow> TagEntity" where
  "tag_row n s = \<lparr>TagEntity.id = n, name = s, createdAt = n, updatedAt = n\<rparr>"

definition blog1 :: BlogEntity where
  "blog1 = \<lparr>BlogEntity.id = 1, title = ''Golang Basics'', content = ''intro'',
             published = True, createdAt = 10, updatedAt = 10, author = 1\<rparr>"

definition blog2 :: BlogEntity where
  "blog2 = \<lparr>BlogEntity.id = 2, title = ''Algorithms in Go'', content = ''sorting'',
             published = False, createdAt = 20, updatedAt = 20, author = 2\<rparr>"

definition blog3 :: BlogEntity where
  "blog3 = \<lparr>BlogEntity.id = 3, title = ''Rust Notes'', content = ''ownership'',
             published = True, createdAt = 25, updatedAt = 25, author = 1\<rparr>"

definition blogTag1 :: BlogTagEntity where
  "blogTag1 = \<lparr>BlogTagEntity.id = 1, createdAt = 30, updatedAt = 30, blog = 1, tag = 1\<rparr>"

definition blogTag2 :: BlogTagEntity where
  "blogTag2 = \<lparr>BlogTagEntity.id = 2, createdAt = 31, updatedAt = 31, blog = 2, tag = 1\<rparr>"

definition draft1 :: DraftEntity where
  "draft1 = \<lparr>DraftEntity.id = 1, content = ''first'', createdAt = 40, updatedAt = 40,
              blog = 1, createdBy = 1\<rparr>"

definition draft2 :: DraftEntity where
  "draft2 = \<lparr>DraftEntity.id = 2, content = ''second'', createdAt = 41, updatedAt = 41,
              blog = 2, createdBy = 2\<rparr>"

definition comment1 :: CommentEntity where
  "comment1 = \<lparr>CommentEntity.id = 1, content = ''nice'', createdAt = 50, updatedAt = 50,
                blog = 2, user = 1\<rparr>"

definition comment2 :: CommentEntity where
  "comment2 = \<lparr>CommentEntity.id = 2, content = ''thanks'', createdAt = 51, updatedAt = 51,
                blog = 1, user = 2\<rparr>"

definition like1 :: LikeEntity where
  "like1 = \<lparr>LikeEntity.id = 1, createdAt = 60, updatedAt = 60, blog = 2, user = 1\<rparr>"

definition like2 :: LikeEntity where
  "like2 = \<lparr>LikeEntity.id = 2, createdAt = 61, updatedAt = 61, blog = 1, user = 2\<rparr>"

definition example_db :: database where
  "example_db =
     \<lparr>collation = case_insensitive,
      tags = [tag_row 1 ''golang'', tag_row 2 ''django'', tag_row 3 ''go-kit'',
              tag_row 4 ''gopher'', tag_row 5 ''gorm'', tag_row 6 ''gofmt'',
              tag_row 7 ''goroutine''],
      blogs = [blog1, blog2, blog3],
      blogTags = [blogTag1, blogTag2],
      drafts = [draft1, draft2],
      comments = [comment1, comment2],
      likes = [like1, like2]\<rparr>"

text \<open>
  A store of two tags created at the same time, and the same store yielding the two in the
  other order.
\<close>

definition tagA :: TagEntity where
  "tagA = \<lparr>TagEntity.id = 1, name = ''a'', createdAt = 5, updatedAt = 5\<rparr>"

definition tagB :: TagEntity where
  "tagB = \<lparr>TagEntity.id = 2, name = ''b'', createdAt = 5, updatedAt = 5\<rparr>"

definition tie_db :: database where
  "tie_db = \<lparr>collation = [], tags = [tagA, tagB], blogs = [], blogTags = [], drafts = [],
              comments = [], likes = []\<rparr>"

definition tie_db_rearranged :: database where
  "tie_db_rearranged = tie_db\<lparr>tags := [tagB, tagA]\<rparr>"

section \<open>Facts about the query builder\<close>

lemma getMany_take_5:
  "getMany sch co rows (take' 5 qb) = Inr res \<Longrightarrow> length res \<le> 5"
  by (auto simp: getMany_def window_def take'_def Let_def split: if_splits option.splits)

lemma set_window: "set (window qb rows) \<subseteq> set rows"
  by (auto simp: window_def Let_def split: option.splits dest: in_set_takeD in_set_dropD)

lemma getManyAndCount_rows:
  assumes "\<not> unknown_column sch qb" and "\<And>r. matches sch co qb r \<Longrightarrow> P r"
  shows "\<exists>rows n. getManyAndCount sch co ordered qb = Inr (rows, n) \<and> (\<forall>r\<in>set rows. P r)"
  using assms set_window [of qb "filter (matches sch co qb) ordered"]
  by (auto simp: getManyAndCount_def)

lemma paged_of_rows:
  assumes "\<exists>rows n. out = Inr (rows, n) \<and> (\<forall>r\<in>set rows. P (main r))"
  shows "\<exists>p. paged_of main out = Inr p \<and> (\<forall>x\<in>set (result p). P x)"
  using assms by (auto simp: paged_of_def)

lemma matches_skip_take [simp]:
  "matches sch co (skip s qb) = matches sch co qb"
  "matches sch co (take' t qb) = matches sch co qb"
  "unknown_column sch (skip s qb) = unknown_column sch qb"
  "unknown_column sch (take' t qb) = unknown_column sch qb"
  by (simp_all add: matches_def unknown_column_def paths_def skip_def take'_def fun_eq_iff)

lemma eval_from_ands:
  "list_all (\<lambda>(t, c). t \<noteq> WOr) cs \<Longrightarrow>
   eval_from ev acc cs = (acc \<and> list_all (\<lambda>(t, c). ev c) cs)"
proof (induction cs arbitrary: acc)
  case Nil
  then show ?case by simp
next
  case (Cons x cs)
  obtain t c where x: "x = (t, c)" by (cases x)
  with Cons show ?case by (cases t) auto
qed

lemma eval_clauses_ands:
  "list_all (\<lambda>(t, c). t \<noteq> WOr) cs \<Longrightarrow> eval_clauses ev cs = list_all (\<lambda>(t, c). ev c) cs"
proof (cases cs)
  case Nil
  then show ?thesis by simp
next
  case (Cons x xs)
  assume "list_all (\<lambda>(t, c). t \<noteq> WOr) cs"
  with Cons show ?thesis by (cases x) (simp add: eval_from_ands)
qed

lemma by_parent_matches:
  assumes "matches sch co
     (whenSupplied searchTerm (\<lambda>k. andWhere (g k)) (andWhere (Atom (EqParam path v)) qb)) r"
    and "list_all (\<lambda>(t, c). t \<noteq> WOr) (wheres qb)"
  shows "eval_atom sch co r (EqParam path v) \<and>
         list_all (\<lambda>(t, c). eval_cond sch co r c) (wheres qb)"
  using assms
  by (cases searchTerm)
    (auto simp: whenSupplied_def matches_def andWhere_def eval_clauses_ands split: if_splits)

lemma by_parent_keyword:
  assumes "matches sch co
     (whenSupplied searchTerm (\<lambda>k. andWhere (g k)) (andWhere (Atom (EqParam path v)) qb)) r"
    and "list_all (\<lambda>(t, c). t \<noteq> WOr) (wheres qb)"
    and "searchTerm = Some k" and "k \<noteq> []"
  shows "eval_cond sch co r (g k)"
  using assms
  by (auto simp: whenSupplied_def matches_def andWhere_def eval_clauses_ands)

lemma window_skip_take:
  "window (skip s (take' t qb)) rows = (if t = 0 then drop s rows else take t (drop s rows))"
  by (simp add: window_def skip_def take'_def)

lemma distinct_orderByDesc: "distinct (orderByDesc key rows) = distinct rows"
  by (simp add: orderByDesc_def)

lemma orderByDesc_descending:
  "sorted_wrt (\<lambda>a b. key b \<le> key a) (orderByDesc key rows)"
proof -
  have "sorted (map key (sort_key key (rev rows)))" by simp
  then have "sorted_wrt (\<lambda>a b. key a \<le> key b) (sort_key key (rev rows))"
    by (simp add: sorted_map)
  then show ?thesis
    by (simp add: orderByDesc_def sorted_wrt_rev)
qed

lemma two_pages:
  assumes "distinct ds"
  shows "set (take n (drop 0 ds)) \<inter> set (take n (drop n ds)) = {}"
    and "take n (drop 0 ds) @ take n (drop n ds) = take (2 * n) ds"
proof -
  have "set (take n ds) \<inter> set (drop n ds) = {}"
    using assms by (simp add: set_take_disj_set_drop_if_distinct)
  moreover have "set (take n (drop n ds)) \<subseteq> set (drop n ds)"
    by (simp add: set_take_subset)
  ultimately show "set (take n (drop 0 ds)) \<inter> set (take n (drop n ds)) = {}"
    by auto
  show "take n (drop 0 ds) @ take n (drop n ds) = take (2 * n) ds"
    by (simp add: take_add mult_2)
qed

section \<open>The dropdown queries\<close>

text \<open>
  C10.  Whatever the keyword, the fields and the table are, a dropdown query that returns
  rows returns at most five of them: tags, blogs, drafts, comments, likes and blog-tags.
\<close>

theorem dropdown_at_most_5:
  "(TagRepository_findAllDropdown db flds keyword = Inr tagRows
      \<longrightarrow> length tagRows \<le> 5) \<and>
   (BlogRepository_findAllDropdown db userId flds keyword = Inr blogRows
      \<longrightarrow> length blogRows \<le> 5) \<and>
   (DraftRepository_findAllDropdown db userId flds keyword = Inr draftRows
      \<longrightarrow> length draftRows \<le> 5) \<and>
   (CommentRepository_findAllDropdown db userId flds keyword = Inr commentRows
      \<longrightarrow> length commentRows \<le> 5) \<and>
   (LikeRepository_findAllDropdown db userId flds keyword = Inr likeRows
      \<longrightarrow> length likeRows \<le> 5) \<and>
   (BlogTagRepository_findAllDropdown db flds keyword = Inr blogTagRows
      \<longrightarrow> length blogTagRows \<le> 5)"
  unfolding TagRepository_findAllDropdown_def BlogRepository_findAllDropdown_def
    DraftRepository_findAllDropdown_def CommentRepository_findAllDropdown_def
    LikeRepository_findAllDropdown_def BlogTagRepository_findAllDropdown_def
  by (blast intro: getMany_take_5)

theorem dropdown_at_most_5_witness:
  "TagRepository_findAllDropdown example_db [''id''] None =
     Inr [tag_row 1 ''golang'', tag_row 2 ''django'', tag_row 3 ''go-kit'',
          tag_row 4 ''gopher'', tag_row 5 ''gorm''] \<and>
   length [tag_row 1 ''golang'', tag_row 2 ''django'', tag_row 3 ''go-kit'',
           tag_row 4 ''gopher'', tag_row 5 ''gorm''] \<le> 5 \<and>
   BlogRepository_findAllDropdown example_db 1 [''id''] None = Inr [blog1, blog3] \<and>
   length [blog1, blog3] \<le> 5 \<and>
   DraftRepository_findAllDropdown example_db 1 [''id''] None = Inr [draft1] \<and>
   length [draft1] \<le> 5 \<and>
   CommentRepository_findAllDropdown example_db 1 [''id''] None = Inr [comment1] \<and>
   length [comment1] \<le> 5 \<and>
   LikeRepository_findAllDropdown example_db 1 [''id''] None = Inr [like1] \<and>
   length [like1] \<le> 5 \<and>
   BlogTagRepository_findAllDropdown example_db [''id''] None = Inr [blogTag1, blogTag2] \<and>
   length [blogTag1, blogTag2] \<le> 5"
proof -
  have t: "TagRepository_findAllDropdown example_db [''id''] None =
     Inr [tag_row 1 ''golang'', tag_row 2 ''django'', tag_row 3 ''go-kit'',
          tag_row 4 ''gopher'', tag_row 5 ''gorm'']"
    by code_simp
  have b: "BlogRepository_findAllDropdown example_db 1 [''id''] None = Inr [blog1, blog3]"
    by code_simp
  have d: "DraftRepository_findAllDropdown example_db 1 [''id''] None = Inr [draft1]"
    by code_simp
  have c: "CommentRepository_findAllDropdown example_db 1 [''id''] None = Inr [comment1]"
    by code_simp
  have l: "LikeRepository_findAllDropdown example_db 1 [''id''] None = Inr [like1]"
    by code_simp
  have bt: "BlogTagRepository_findAllDropdown example_db [''id''] None =
     Inr [blogTag1, blogTag2]"
    by code_simp
  from dropdown_at_most_5 [of example_db "[''id'']" None _ 1] t b d c l bt
  show ?thesis by simp
qed

section \<open>Keyword search\<close>

text \<open>
  C6.  The keyword goes into the pattern as it is, followed by \<open>%\<close>: for one search field
  the tag builder's only clause, and the blog builder's first, is the comparison of that
  field with the keyword's characters and \<open>%\<close>.  So a keyword with a metacharacter finds
  rows that do not start with it: in the example store, the tag search for \<open>%go\<close> returns
  all seven tags, none of whose names starts with \<open>%go\<close>, and user 1's blog search for
  \<open>_olang\<close> returns the blog titled \<open>Golang Basics\<close>.
\<close>

theorem like_metacharacters_not_escaped:
  "wheres (TagRepository_getQueryBuilder [f] (Some (c # k))) =
     [(WSimple, Atom (Like (''tag.'' @ f) (c # k @ ''%'')))] \<and>
   wheres (BlogRepository_getQueryBuilder userId [f] (Some (c # k))) =
     [(WSimple, Atom (Like (''blog.'' @ f) (c # k @ ''%''))),
      (WAnd, Atom (EqParam ''blog.author.id'' userId))] \<and>
   TagRepository_getAll example_db 0 10 (Some ''%go'') =
     Inr \<lparr>result = rev (tags example_db), total = 7\<rparr> \<and>
   \<not> list_ex (\<lambda>t. prefix ''%go'' (TagEntity.name t)) (tags example_db) \<and>
   BlogRepository_getAll example_db 1 0 10 (Some ''_olang'') =
     Inr \<lparr>result = [blog1], total = 1\<rparr> \<and>
   \<not> prefix ''_olang'' (BlogEntity.title blog1)"
proof -
  have a: "wheres (TagRepository_getQueryBuilder [f] (Some (c # k))) =
     [(WSimple, Atom (Like (''tag.'' @ f) (c # k @ ''%'')))]"
    by (simp add: TagRepository_getQueryBuilder_def keywordSearch_def whenSupplied_def
        where'_def createQueryBuilder_def)
  have b: "wheres (BlogRepository_getQueryBuilder userId [f] (Some (c # k))) =
     [(WSimple, Atom (Like (''blog.'' @ f) (c # k @ ''%''))),
      (WAnd, Atom (EqParam ''blog.author.id'' userId))]"
    by (simp add: BlogRepository_getQueryBuilder_def keywordSearch_def whenSupplied_def
        where'_def andWhere_def createQueryBuilder_def)
  have c: "TagRepository_getAll example_db 0 10 (Some ''%go'') =
     Inr \<lparr>result = rev (tags example_db), total = 7\<rparr>"
    by code_simp
  have d: "\<not> list_ex (\<lambda>t. prefix ''%go'' (TagEntity.name t)) (tags example_db)"
    by code_simp
  have e: "BlogRepository_getAll example_db 1 0 10 (Some ''_olang'') =
     Inr \<lparr>result = [blog1], total = 1\<rparr>"
    by code_simp
  have f: "\<not> prefix ''_olang'' (BlogEntity.title blog1)"
    by code_simp
  show ?thesis by (intro conjI a b c d e f)
qed

section \<open>Ownership and the keyword\<close>

text \<open>
  C1, at the requests that break it.  The caller is user 1.  The blog list searched for
  \<open>Algo\<close> and the blog dropdown over \<open>id\<close> and \<open>title\<close> searched for \<open>2\<close> return the blog
  of user 2; the draft list searched for \<open>Algo\<close> returns the draft of user 2; the comment
  list and the like list searched for \<open>Go\<close> return the comment and the like of user 2.
  In each statement the ownership comparison is the last conjunct of the last run only, and
  the keyword comparisons before or after it are alternatives to it.
\<close>

theorem keyword_match_returns_foreign_rows:
  "BlogRepository_getAll example_db 1 0 10 (Some ''Algo'') =
     Inr \<lparr>result = [blog2], total = 1\<rparr> \<and>
   BlogEntity.author blog2 = 2 \<and>
   BlogRepository_findAllDropdown example_db 1 [''id'', ''title''] (Some ''2'') = Inr [blog2] \<and>
   DraftRepository_getAll example_db 1 0 10 (Some ''Algo'') =
     Inr \<lparr>result = [draft2], total = 1\<rparr> \<and>
   DraftEntity.createdBy draft2 = 2 \<and>
   CommentRepository_getAll example_db 1 0 10 (Some ''Go'') =
     Inr \<lparr>result = [comment2], total = 1\<rparr> \<and>
   CommentEntity.user comment2 = 2 \<and>
   LikeRepository_getAll example_db 1 0 10 (Some ''Go'') =
     Inr \<lparr>result = [like2, like1], total = 2\<rparr> \<and>
   LikeEntity.user like2 = 2"
proof -
  have a: "BlogRepository_getAll example_db 1 0 10 (Some ''Algo'') =
     Inr \<lparr>result = [blog2], total = 1\<rparr>"
    by code_simp
  have b: "BlogRepository_findAllDropdown example_db 1 [''id'', ''title''] (Some ''2'') =
     Inr [blog2]"
    by code_simp
  have c: "DraftRepository_getAll example_db 1 0 10 (Some ''Algo'') =
     Inr \<lparr>result = [draft2], total = 1\<rparr>"
    by code_simp
  have d: "CommentRepository_getAll example_db 1 0 10 (Some ''Go'') =
     Inr \<lparr>result = [comment2], total = 1\<rparr>"
    by code_simp
  have e: "LikeRepository_getAll example_db 1 0 10 (Some ''Go'') =
     Inr \<lparr>result = [like2, like1], total = 2\<rparr>"
    by code_simp
  have a': "BlogEntity.author blog2 = 2" by (simp add: blog2_def)
  have c': "DraftEntity.createdBy draft2 = 2" by (simp add: draft2_def)
  have d': "CommentEntity.user comment2 = 2" by (simp add: comment2_def)
  have e': "LikeEntity.user like2 = 2" by (simp add: like2_def)
  show ?thesis by (intro conjI a a' b c c' d d' e e')
qed

section \<open>Errors that reach the caller\<close>

text \<open>
  C4, at the requests that break it.  The dropdown methods and the update methods return
  the repository's promise without awaiting it, so its rejection is not caught: a dropdown
  request that names a field the table does not have, and a draft update that names a blog
  that does not exist, reach the caller as the store's error and not as a bad request.
\<close>

theorem unawaited_rejection_escapes:
  "TagService_findAllDropdownData example_db [''nam''] (Some ''go'') =
     Inl (QueryFailedError ''Unknown column'' (Some ''ER_BAD_FIELD_ERROR'')) \<and>
   BlogService_findAllDropdownData example_db 1 [''nam''] (Some ''go'') =
     Inl (QueryFailedError ''Unknown column'' (Some ''ER_BAD_FIELD_ERROR'')) \<and>
   DraftService_updateDraft example_db 99 1 1 \<lparr>blogId = Some 7, content = None\<rparr> =
     Inl (QueryFailedError ''a foreign key constraint fails''
            (Some ''ER_NO_REFERENCED_ROW_2'')) \<and>
   \<not> isBadRequest (QueryFailedError ''Unknown column'' (Some ''ER_BAD_FIELD_ERROR'')) \<and>
   \<not> isBadRequest (QueryFailedError ''a foreign key constraint fails''
            (Some ''ER_NO_REFERENCED_ROW_2''))"
proof -
  have a: "TagService_findAllDropdownData example_db [''nam''] (Some ''go'') =
     Inl (QueryFailedError ''Unknown column'' (Some ''ER_BAD_FIELD_ERROR''))"
    by code_simp
  have b: "BlogService_findAllDropdownData example_db 1 [''nam''] (Some ''go'') =
     Inl (QueryFailedError ''Unknown column'' (Some ''ER_BAD_FIELD_ERROR''))"
    by code_simp
  have c: "DraftService_updateDraft example_db 99 1 1 \<lparr>blogId = Some 7, content = None\<rparr> =
     Inl (QueryFailedError ''a foreign key constraint fails''
            (Some ''ER_NO_REFERENCED_ROW_2''))"
    by code_simp
  have d: "\<not> isBadRequest (QueryFailedError m c)" for m c by simp
  show ?thesis by (intro conjI a b c d)
qed


text \<open>
  The methods that await the repository do what C4 says: whatever they fail with is a bad
  request.
\<close>

lemma awaited_calls_fail_as_bad_request:
  "(TagService_getAllTags db skp tk search = Inl e \<longrightarrow> isBadRequest e) \<and>
   (TagService_getTagById db i = Inl e \<longrightarrow> isBadRequest e) \<and>
   (BlogService_getAllBlogs db userId skp tk search = Inl e \<longrightarrow> isBadRequest e) \<and>
   (BlogService_getBlogById db userId i = Inl e \<longrightarrow> isBadRequest e) \<and>
   (DraftService_getDraftById db userId i = Inl e \<longrightarrow> isBadRequest e) \<and>
   (CommentService_getCommentById db userId i = Inl e \<longrightarrow> isBadRequest e) \<and>
   (LikeService_getLikeById db userId i = Inl e \<longrightarrow> isBadRequest e)"
proof (intro conjI impI)
  assume "TagService_getAllTags db skp tk search = Inl e"
  then show "isBadRequest e"
    by (cases "TagRepository_getAll db skp tk search")
      (auto simp: TagService_getAllTags_def catchBlock_def)
next
  assume "TagService_getTagById db i = Inl e"
  then show "isBadRequest e"
    by (cases "find (\<lambda>t. TagEntity.id t = i) (tags db)")
      (auto simp: TagService_getTagById_def TagRepository_findById_def catchBlock_def)
next
  assume "BlogService_getAllBlogs db userId skp tk search = Inl e"
  then show "isBadRequest e"
    by (cases "BlogRepository_getAll db userId skp tk search")
      (auto simp: BlogService_getAllBlogs_def catchBlock_def)
next
  assume "BlogService_getBlogById db userId i = Inl e"
  then show "isBadRequest e"
    by (cases "find (\<lambda>b. BlogEntity.id b = i \<and> BlogEntity.author b = userId) (blogs db)")
      (auto simp: BlogService_getBlogById_def BlogRepository_findById_def catchBlock_def)
next
  assume "DraftService_getDraftById db userId i = Inl e"
  then show "isBadRequest e"
    by (cases "find (\<lambda>d. DraftEntity.id d = i \<and> DraftEntity.createdBy d = userId) (drafts db)")
      (auto simp: DraftService_getDraftById_def DraftRepository_findById_def catchBlock_def)
next
  assume "CommentService_getCommentById db userId i = Inl e"
  then show "isBadRequest e"
    by (cases "find (\<lambda>c. CommentEntity.id c = i \<and> CommentEntity.user c = userId) (comments db)")
      (auto simp: CommentService_getCommentById_def CommentRepository_findById_def
        catchBlock_def)
next
  assume "LikeService_getLikeById db userId i = Inl e"
  then show "isBadRequest e"
    by (cases "find (\<lambda>l. LikeEntity.id l = i \<and> LikeEntity.user l = userId) (likes db)")
      (auto simp: LikeService_getLikeById_def LikeRepository_findById_def catchBlock_def)
qed

section \<open>Lookup by id\<close>

lemma find_other_owner:
  assumes "distinct (map pk rows)" and "r \<in> set rows" and "owner r \<noteq> u"
  shows "find (\<lambda>x. pk x = pk r \<and> owner x = u) rows = None"
proof -
  have "x = r" if "x \<in> set rows" "pk x = pk r" for x
    using that assms(1,2) by (meson distinct_map inj_on_def)
  with assms(3) show ?thesis
    by (auto simp: find_None_iff)
qed

lemma find_absent:
  assumes "j \<notin> pk ` set rows"
  shows "find (\<lambda>x. pk x = j \<and> owner x = u) rows = None"
  using assms by (auto simp: find_None_iff)

lemma getBlogById_not_found:
  "BlogRepository_findById db userId i = Inr None \<Longrightarrow>
   BlogService_getBlogById db userId i = Inl (BadRequestException ''BlogEntity not found'' None)"
  by (simp add: BlogService_getBlogById_def catchBlock_def)

lemma getDraftById_not_found:
  "DraftRepository_findById db userId i = Inr None \<Longrightarrow>
   DraftService_getDraftById db userId i = Inl (BadRequestException ''DraftEntity not found'' None)"
  by (simp add: DraftService_getDraftById_def catchBlock_def)

lemma getCommentById_not_found:
  "CommentRepository_findById db userId i = Inr None \<Longrightarrow>
   CommentService_getCommentById db userId i =
     Inl (BadRequestException ''CommentEntity not found'' None)"
  by (simp add: CommentService_getCommentById_def catchBlock_def)

lemma getLikeById_not_found:
  "LikeRepository_findById db userId i = Inr None \<Longrightarrow>
   LikeService_getLikeById db userId i = Inl (BadRequestException ''LikeEntity not found'' None)"
  by (simp add: LikeService_getLikeById_def catchBlock_def)

text \<open>
  C2.  For blogs, drafts, comments and likes: when the ids of the table are unique, a record
  of the table belongs to another user than the caller, and \<open>j\<close> is the id of no record, then
  the lookup of that record's id by the caller fails with the bad request that carries the
  not-found message, and the lookup of \<open>j\<close> has the same outcome.
\<close>

theorem other_owner_as_absent:
  "(distinct (map BlogEntity.id (blogs db)) \<and> b \<in> set (blogs db) \<and>
      BlogEntity.author b \<noteq> userId \<and> j \<notin> BlogEntity.id ` set (blogs db) \<longrightarrow>
      BlogService_getBlogById db userId (BlogEntity.id b) =
        Inl (BadRequestException ''BlogEntity not found'' None) \<and>
      BlogService_getBlogById db userId j = BlogService_getBlogById db userId (BlogEntity.id b)) \<and>
   (distinct (map DraftEntity.id (drafts db)) \<and> d \<in> set (drafts db) \<and>
      DraftEntity.createdBy d \<noteq> userId \<and> j \<notin> DraftEntity.id ` set (drafts db) \<longrightarrow>
      DraftService_getDraftById db userId (DraftEntity.id d) =
        Inl (BadRequestException ''DraftEntity not found'' None) \<and>
      DraftService_getDraftById db userId j =
        DraftService_getDraftById db userId (DraftEntity.id d)) \<and>
   (distinct (map CommentEntity.id (comments db)) \<and> c \<in> set (comments db) \<and>
      CommentEntity.user c \<noteq> userId \<and> j \<notin> CommentEntity.id ` set (comments db) \<longrightarrow>
      CommentService_getCommentById db userId (CommentEntity.id c) =
        Inl (BadRequestException ''CommentEntity not found'' None) \<and>
      CommentService_getCommentById db userId j =
        CommentService_getCommentById db userId (CommentEntity.id c)) \<and>
   (distinct (map LikeEntity.id (likes db)) \<and> l \<in> set (likes db) \<and>
      LikeEntity.user l \<noteq> userId \<and> j \<notin> LikeEntity.id ` set (likes db) \<longrightarrow>
      LikeService_getLikeById db userId (LikeEntity.id l) =
        Inl (BadRequestException ''LikeEntity not found'' None) \<and>
      LikeService_getLikeById db userId j = LikeService_getLikeById db userId (LikeEntity.id l))"
proof (intro conjI impI; elim conjE)
  assume "distinct (map BlogEntity.id (blogs db))" "b \<in> set (blogs db)"
    "BlogEntity.author b \<noteq> userId"
  then show "BlogService_getBlogById db userId (BlogEntity.id b) =
        Inl (BadRequestException ''BlogEntity not found'' None)"
    by (intro getBlogById_not_found) (simp add: BlogRepository_findById_def find_other_owner)
next
  assume "distinct (map BlogEntity.id (blogs db))" "b \<in> set (blogs db)"
    "BlogEntity.author b \<noteq> userId" "j \<notin> BlogEntity.id ` set (blogs db)"
  then show "BlogService_getBlogById db userId j =
      BlogService_getBlogById db userId (BlogEntity.id b)"
    by (simp add: getBlogById_not_found BlogRepository_findById_def find_other_owner find_absent)
next
  assume "distinct (map DraftEntity.id (drafts db))" "d \<in> set (drafts db)"
    "DraftEntity.createdBy d \<noteq> userId"
  then show "DraftService_getDraftById db userId (DraftEntity.id d) =
        Inl (BadRequestException ''DraftEntity not found'' None)"
    by (intro getDraftById_not_found) (simp add: DraftRepository_findById_def find_other_owner)
next
  assume "distinct (map DraftEntity.id (drafts db))" "d \<in> set (drafts db)"
    "DraftEntity.createdBy d \<noteq> userId" "j \<notin> DraftEntity.id ` set (drafts db)"
  then show "DraftService_getDraftById db userId j =
      DraftService_getDraftById db userId (DraftEntity.id d)"
    by (simp add: getDraftById_not_found DraftRepository_findById_def find_other_owner
        find_absent)
next
  assume "distinct (map CommentEntity.id (comments db))" "c \<in> set (comments db)"
    "CommentEntity.user c \<noteq> userId"
  then show "CommentService_getCommentById db userId (CommentEntity.id c) =
        Inl (BadRequestException ''CommentEntity not found'' None)"
    by (intro getCommentById_not_found)
      (simp add: CommentRepository_findById_def find_other_owner)
next
  assume "distinct (map CommentEntity.id (comments db))" "c \<in> set (comments db)"
    "CommentEntity.user c \<noteq> userId" "j \<notin> CommentEntity.id ` set (comments db)"
  then show "CommentService_getCommentById db userId j =
      CommentService_getCommentById db userId (CommentEntity.id c)"
    by (simp add: getCommentById_not_found CommentRepository_findById_def find_other_owner
        find_absent)
next
  assume "distinct (map LikeEntity.id (likes db))" "l \<in> set (likes db)"
    "LikeEntity.user l \<noteq> userId"
  then show "LikeService_getLikeById db userId (LikeEntity.id l) =
        Inl (BadRequestException ''LikeEntity not found'' None)"
    by (intro getLikeById_not_found) (simp add: LikeRepository_findById_def find_other_owner)
next
  assume "distinct (map LikeEntity.id (likes db))" "l \<in> set (likes db)"
    "LikeEntity.user l \<noteq> userId" "j \<notin> LikeEntity.id ` set (likes db)"
  then show "LikeService_getLikeById db userId j =
      LikeService_getLikeById db userId (LikeEntity.id l)"
    by (simp add: getLikeById_not_found LikeRepository_findById_def find_other_owner find_absent)
qed

theorem other_owner_as_absent_witness:
  "BlogService_getBlogById example_db 1 2 = Inl (BadRequestException ''BlogEntity not found'' None) \<and>
   BlogService_getBlogById example_db 1 9 = BlogService_getBlogById example_db 1 2 \<and>
   DraftService_getDraftById example_db 1 2 = Inl (BadRequestException ''DraftEntity not found'' None) \<and>
   DraftService_getDraftById example_db 1 9 = DraftService_getDraftById example_db 1 2 \<and>
   CommentService_getCommentById example_db 1 2 =
     Inl (BadRequestException ''CommentEntity not found'' None) \<and>
   CommentService_getCommentById example_db 1 9 = CommentService_getCommentById example_db 1 2 \<and>
   LikeService_getLikeById example_db 1 2 = Inl (BadRequestException ''LikeEntity not found'' None) \<and>
   LikeService_getLikeById example_db 1 9 = LikeService_getLikeById example_db 1 2"
proof -
  have h: "distinct (map BlogEntity.id (blogs example_db)) \<and> blog2 \<in> set (blogs example_db) \<and>
      BlogEntity.author blog2 \<noteq> 1 \<and> 9 \<notin> BlogEntity.id ` set (blogs example_db)"
    "distinct (map DraftEntity.id (drafts example_db)) \<and> draft2 \<in> set (drafts example_db) \<and>
      DraftEntity.createdBy draft2 \<noteq> 1 \<and> 9 \<notin> DraftEntity.id ` set (drafts example_db)"
    "distinct (map CommentEntity.id (comments example_db)) \<and>
      comment2 \<in> set (comments example_db) \<and>
      CommentEntity.user comment2 \<noteq> 1 \<and> 9 \<notin> CommentEntity.id ` set (comments example_db)"
    "distinct (map LikeEntity.id (likes example_db)) \<and> like2 \<in> set (likes example_db) \<and>
      LikeEntity.user like2 \<noteq> 1 \<and> 9 \<notin> LikeEntity.id ` set (likes example_db)"
    by (simp_all add: example_db_def blog1_def blog2_def blog3_def draft1_def draft2_def
        comment1_def comment2_def like1_def like2_def)
  have i: "BlogEntity.id blog2 = 2" "DraftEntity.id draft2 = 2" "CommentEntity.id comment2 = 2"
    "LikeEntity.id like2 = 2"
    by (simp_all add: blog2_def draft2_def comment2_def like2_def)
  from other_owner_as_absent [of example_db blog2 1 9 draft2 comment2 like2] h
  show ?thesis unfolding i by blast
qed

section \<open>Pagination parameters\<close>

text \<open>
  C7, at the request that breaks it.  A \<open>page\<close> that is not a number makes the page number
  and the skip \<open>NaN\<close>; a \<open>limit\<close> that is not a number makes the skip and the page size
  \<open>NaN\<close>, which is not at least 1.
\<close>

theorem not_a_number_is_not_clamped:
  "TagController_getAllTags (Some NaN) None = (NaN, Num 10) \<and>
   TagController_getAllTags None (Some NaN) = (NaN, NaN) \<and>
   \<not> js_ge (snd (TagController_getAllTags None (Some NaN))) (Num 1)"
  by (simp add: TagController_getAllTags_def orElse_def)

section \<open>Queries by parent id\<close>

text \<open>
  In the by-parent queries every clause is added with \<open>andWhere\<close>, the keyword group as one
  \<open>Brackets\<close> clause, so a row matches only if it passes the comparisons with the parent id
  (and with the caller's id where the resource has an owner).
\<close>

lemma drafts_by_blog:
  "\<exists>p. DraftRepository_getDraftsByBlogId db userId bId skp tk searchTerm = Inr p \<and>
     (\<forall>x\<in>set (result p). DraftEntity.blog x = bId \<and> DraftEntity.createdBy x = userId \<and>
        (\<forall>k. searchTerm = Some k \<and> k \<noteq> [] \<longrightarrow>
           like (collation db) (k @ ''%'') (DraftEntity.content x)))"
  unfolding DraftRepository_getDraftsByBlogId_def
  apply (intro paged_of_rows getManyAndCount_rows)
  subgoal
    by (cases searchTerm)
      (simp_all add: whenSupplied_def unknown_column_def paths_def andWhere_def skip_def
        take'_def createQueryBuilder_def aliased_def DraftEntity_columns_def)
  subgoal for r
    apply (intro conjI allI impI)
    subgoal
      by (simp, drule by_parent_matches)
        (simp_all add: andWhere_def createQueryBuilder_def aliased_def DraftEntity_columns_def)
    subgoal
      by (simp, drule by_parent_matches)
        (simp_all add: andWhere_def createQueryBuilder_def aliased_def DraftEntity_columns_def)
    subgoal for k
      by (simp, drule by_parent_keyword [where k = k])
        (simp_all add: andWhere_def createQueryBuilder_def aliased_def DraftEntity_columns_def)
    done
  done

lemma comments_by_blog:
  "\<exists>p. CommentRepository_getCommentsByBlogId db userId bId skp tk searchTerm = Inr p \<and>
     (\<forall>x\<in>set (result p). CommentEntity.blog x = bId \<and> CommentEntity.user x = userId \<and>
        (\<forall>k. searchTerm = Some k \<and> k \<noteq> [] \<longrightarrow>
           like (collation db) (k @ ''%'') (CommentEntity.content x)))"
  unfolding CommentRepository_getCommentsByBlogId_def
  apply (intro paged_of_rows getManyAndCount_rows)
  subgoal
    by (cases searchTerm)
      (simp_all add: whenSupplied_def unknown_column_def paths_def andWhere_def skip_def
        take'_def createQueryBuilder_def aliased_def CommentEntity_columns_def)
  subgoal for r
    apply (intro conjI allI impI)
    subgoal
      by (simp, drule by_parent_matches)
        (simp_all add: andWhere_def createQueryBuilder_def aliased_def CommentEntity_columns_def)
    subgoal
      by (simp, drule by_parent_matches)
        (simp_all add: andWhere_def createQueryBuilder_def aliased_def CommentEntity_columns_def)
    subgoal for k
      by (simp, drule by_parent_keyword [where k = k])
        (simp_all add: andWhere_def createQueryBuilder_def aliased_def CommentEntity_columns_def)
    done
  done

lemma likes_by_blog:
  "\<exists>p. LikeRepository_getLikesByBlogId db userId bId skp tk searchTerm = Inr p \<and>
     (\<forall>x\<in>set (result p). LikeEntity.blog x = bId \<and> LikeEntity.user x = userId)"
  unfolding LikeRepository_getLikesByBlogId_def
  apply (intro paged_of_rows getManyAndCount_rows)
  subgoal
    by (cases searchTerm)
      (simp_all add: whenSupplied_def unknown_column_def paths_def andWhere_def skip_def
        take'_def createQueryBuilder_def aliased_def LikeEntity_columns_def)
  subgoal for r
    by (simp, drule by_parent_matches)
      (simp_all add: andWhere_def createQueryBuilder_def aliased_def LikeEntity_columns_def)
  done

lemma blogTags_by_blog:
  "\<exists>p. BlogTagRepository_getBlogTagsByBlogId db bId skp tk searchTerm = Inr p \<and>
     (\<forall>x\<in>set (result p). BlogTagEntity.blog x = bId)"
  unfolding BlogTagRepository_getBlogTagsByBlogId_def
  apply (intro paged_of_rows getManyAndCount_rows)
  subgoal
    by (cases searchTerm)
      (simp_all add: whenSupplied_def unknown_column_def paths_def andWhere_def skip_def
        take'_def createQueryBuilder_def join_schema_def aliased_def BlogTagEntity_columns_def
        TagEntity_columns_def)
  subgoal for r
    by (simp, drule by_parent_matches)
      (simp_all add: createQueryBuilder_def join_schema_def aliased_def
        BlogTagEntity_columns_def)
  done

lemma blogTags_by_tag:
  "\<exists>p. BlogTagRepository_getBlogTagsByTagId db tId skp tk searchTerm = Inr p \<and>
     (\<forall>x\<in>set (result p). BlogTagEntity.tag x = tId)"
  unfolding BlogTagRepository_getBlogTagsByTagId_def
  apply (intro paged_of_rows getManyAndCount_rows)
  subgoal
    by (cases searchTerm)
      (simp_all add: whenSupplied_def unknown_column_def paths_def andWhere_def skip_def
        take'_def createQueryBuilder_def join_schema_def aliased_def BlogTagEntity_columns_def
        BlogEntity_columns_def)
  subgoal for r
    by (simp, drule by_parent_matches)
      (simp_all add: createQueryBuilder_def join_schema_def aliased_def
        BlogTagEntity_columns_def)
  done

text \<open>
  C9.  For every keyword, window and store, each by-parent query returns a page, and every
  row of the page refers to the given parent: blog-tags by blog id and by tag id, and
  drafts, comments and likes by blog id, the latter three also to the calling user.  A
  supplied keyword narrows within that scope: the drafts and comments returned also match
  the keyword's pattern in their content.
\<close>

theorem by_parent_rows_reference_parent:
  "(\<exists>p. BlogTagRepository_getBlogTagsByBlogId db parentId skp tk searchTerm = Inr p \<and>
      (\<forall>x\<in>set (result p). BlogTagEntity.blog x = parentId)) \<and>
   (\<exists>p. BlogTagRepository_getBlogTagsByTagId db parentId skp tk searchTerm = Inr p \<and>
      (\<forall>x\<in>set (result p). BlogTagEntity.tag x = parentId)) \<and>
   (\<exists>p. DraftRepository_getDraftsByBlogId db userId parentId skp tk searchTerm = Inr p \<and>
      (\<forall>x\<in>set (result p). DraftEntity.blog x = parentId \<and> DraftEntity.createdBy x = userId \<and>
         (\<forall>k. searchTerm = Some k \<and> k \<noteq> [] \<longrightarrow>
            like (collation db) (k @ ''%'') (DraftEntity.content x)))) \<and>
   (\<exists>p. CommentRepository_getCommentsByBlogId db userId parentId skp tk searchTerm = Inr p \<and>
      (\<forall>x\<in>set (result p). CommentEntity.blog x = parentId \<and> CommentEntity.user x = userId \<and>
         (\<forall>k. searchTerm = Some k \<and> k \<noteq> [] \<longrightarrow>
            like (collation db) (k @ ''%'') (CommentEntity.content x)))) \<and>
   (\<exists>p. LikeRepository_getLikesByBlogId db userId parentId skp tk searchTerm = Inr p \<and>
      (\<forall>x\<in>set (result p). LikeEntity.blog x = parentId \<and> LikeEntity.user x = userId))"
  by (intro conjI blogTags_by_blog blogTags_by_tag drafts_by_blog comments_by_blog likes_by_blog)

theorem by_parent_rows_reference_parent_witness:
  "BlogTagRepository_getBlogTagsByBlogId example_db 2 0 10 (Some ''go'') =
     Inr \<lparr>result = [blogTag2], total = 1\<rparr> \<and>
   BlogTagEntity.blog blogTag2 = 2 \<and>
   BlogTagRepository_getBlogTagsByTagId example_db 1 0 10 (Some ''Go'') =
     Inr \<lparr>result = [blogTag1], total = 1\<rparr> \<and>
   BlogTagEntity.tag blogTag1 = 1 \<and>
   DraftRepository_getDraftsByBlogId example_db 2 2 0 10 (Some ''se'') =
     Inr \<lparr>result = [draft2], total = 1\<rparr> \<and>
   DraftEntity.blog draft2 = 2 \<and> DraftEntity.createdBy draft2 = 2 \<and>
   like (collation example_db) (''se'' @ ''%'') (DraftEntity.content draft2) \<and>
   CommentRepository_getCommentsByBlogId example_db 2 1 0 10 (Some ''th'') =
     Inr \<lparr>result = [comment2], total = 1\<rparr> \<and>
   CommentEntity.blog comment2 = 1 \<and> CommentEntity.user comment2 = 2 \<and>
   like (collation example_db) (''th'' @ ''%'') (CommentEntity.content comment2) \<and>
   LikeRepository_getLikesByBlogId example_db 2 1 0 10 (Some ''x'') =
     Inr \<lparr>result = [like2], total = 1\<rparr> \<and>
   LikeEntity.blog like2 = 1 \<and> LikeEntity.user like2 = 2"
proof -
  have a: "BlogTagRepository_getBlogTagsByBlogId example_db 2 0 10 (Some ''go'') =
     Inr \<lparr>result = [blogTag2], total = 1\<rparr>"
    by code_simp
  have b: "BlogTagRepository_getBlogTagsByTagId example_db 1 0 10 (Some ''Go'') =
     Inr \<lparr>result = [blogTag1], total = 1\<rparr>"
    by code_simp
  have c: "DraftRepository_getDraftsByBlogId example_db 2 2 0 10 (Some ''se'') =
     Inr \<lparr>result = [draft2], total = 1\<rparr>"
    by code_simp
  have d: "CommentRepository_getCommentsByBlogId example_db 2 1 0 10 (Some ''th'') =
     Inr \<lparr>result = [comment2], total = 1\<rparr>"
    by code_simp
  have e: "LikeRepository_getLikesByBlogId example_db 2 1 0 10 (Some ''x'') =
     Inr \<lparr>result = [like2], total = 1\<rparr>"
    by code_simp
  from by_parent_rows_reference_parent [of example_db 2 0 10 "Some ''go''" 2] a
  have a': "BlogTagEntity.blog blogTag2 = 2"
    by simp
  from by_parent_rows_reference_parent [of example_db 1 0 10 "Some ''Go''" 2] b
  have b': "BlogTagEntity.tag blogTag1 = 1"
    by simp
  from by_parent_rows_reference_parent [of example_db 2 0 10 "Some ''se''" 2] c
  have c': "DraftEntity.blog draft2 = 2" "DraftEntity.createdBy draft2 = 2"
    "like (collation example_db) (''se'' @ ''%'') (DraftEntity.content draft2)"
    by simp_all
  from by_parent_rows_reference_parent [of example_db 1 0 10 "Some ''th''" 2] d
  have d': "CommentEntity.blog comment2 = 1" "CommentEntity.user comment2 = 2"
    "like (collation example_db) (''th'' @ ''%'') (CommentEntity.content comment2)"
    by simp_all
  from by_parent_rows_reference_parent [of example_db 1 0 10 "Some ''x''" 2] e
  have e': "LikeEntity.blog like2 = 1" "LikeEntity.user like2 = 2"
    by simp_all
  show ?thesis by (intro conjI a a' b b' c c' d d' e e')
qed

section \<open>Pages\<close>

lemma tag_list_paths:
  "\<not> unknown_column (aliased ''tag'' TagEntity_columns)
     (TagRepository_getQueryBuilder [''name''] searchTerm)"
  by (cases searchTerm)
    (simp_all add: TagRepository_getQueryBuilder_def keywordSearch_def whenSupplied_def
      unknown_column_def paths_def where'_def createQueryBuilder_def aliased_def
      TagEntity_columns_def)

lemma blog_list_paths:
  "\<not> unknown_column (aliased ''blog'' BlogEntity_columns)
     (BlogRepository_getQueryBuilder userId [''title'', ''content'', ''published''] searchTerm)"
  by (cases searchTerm)
    (simp_all add: BlogRepository_getQueryBuilder_def keywordSearch_def whenSupplied_def
      unknown_column_def paths_def where'_def orWhere_def andWhere_def createQueryBuilder_def
      aliased_def BlogEntity_columns_def)

lemma tag_getAll_page:
  "TagRepository_getAll db skp tk searchTerm =
     Inr \<lparr>result = (if tk = 0 then drop skp (TagRepository_dataset db searchTerm)
                    else take tk (drop skp (TagRepository_dataset db searchTerm))),
          total = length (TagRepository_dataset db searchTerm)\<rparr>"
  by (simp add: TagRepository_getAll_def TagRepository_dataset_def getManyAndCount_def
      paged_of_def tag_list_paths window_skip_take)

lemma blog_getAll_page:
  "BlogRepository_getAll db userId skp tk searchTerm =
     Inr \<lparr>result = (if tk = 0 then drop skp (BlogRepository_dataset db userId searchTerm)
                    else take tk (drop skp (BlogRepository_dataset db userId searchTerm))),
          total = length (BlogRepository_dataset db userId searchTerm)\<rparr>"
  by (simp add: BlogRepository_getAll_def BlogRepository_dataset_def getManyAndCount_def
      paged_of_def blog_list_paths window_skip_take)

lemma tag_dataset_descending:
  "sorted_wrt (\<lambda>a b. TagEntity.createdAt b \<le> TagEntity.createdAt a)
     (TagRepository_dataset db searchTerm)"
  unfolding TagRepository_dataset_def
  by (intro sorted_wrt_filter orderByDesc_descending)

lemma blog_dataset_descending:
  "sorted_wrt (\<lambda>a b. BlogEntity.createdAt b \<le> BlogEntity.createdAt a)
     (BlogRepository_dataset db userId searchTerm)"
  unfolding BlogRepository_dataset_def
  by (intro sorted_wrt_filter orderByDesc_descending)

text \<open>
  The order of a statement's rows is fixed by the creation times alone exactly as far as
  these differ: two descending arrangements of the same rows are the same list when no two
  of the rows have the same time.
\<close>

lemma filter_orderByDesc:
  "filter P (orderByDesc key rows) = orderByDesc key (filter P rows)"
proof -
  have "filter P (rev (sort_key key (rev rows))) = rev (filter P (sort_key key (rev rows)))"
    by (simp add: rev_filter)
  also have "\<dots> = rev (sort_key key (filter P (rev rows)))"
    by (simp add: filter_sort)
  also have "\<dots> = rev (sort_key key (rev (filter P rows)))"
    by (simp add: rev_filter)
  finally show ?thesis
    by (simp add: orderByDesc_def)
qed

lemma mset_orderByDesc: "mset (orderByDesc key rows) = mset rows"
  by (simp add: orderByDesc_def)

lemma descending_unique:
  fixes key :: "'r \<Rightarrow> nat"
  assumes "sorted_wrt (\<lambda>a b. key b \<le> key a) xs" and "sorted_wrt (\<lambda>a b. key b \<le> key a) ys"
    and "mset xs = mset ys" and "distinct (map key xs)"
  shows "xs = ys"
proof -
  from assms(3) have m: "mset (map key xs) = mset (map key ys)"
    by simp
  have d: "distinct (map key ys)"
    using mset_eq_imp_distinct_iff [OF m] assms(4) by simp
  from assms(3) have s: "set xs = set ys"
    by (rule mset_eq_setD)
  have a: "sorted (rev (map key xs))" "sorted (rev (map key ys))"
    using assms(1,2) by (simp_all add: sorted_wrt_rev sorted_wrt_map flip: rev_map)
  have "rev (map key xs) = rev (map key ys)"
    using a assms(4) d s by (intro sorted_distinct_set_unique) simp_all
  then have e: "map key xs = map key ys"
    by simp
  from assms(4) have "inj_on key (set xs \<union> set ys)"
    by (simp add: s distinct_map)
  with e show ?thesis
    by (simp add: inj_on_map_eq_map)
qed

lemma orderByDesc_rearranged:
  assumes "mset rows' = mset rows"
    and "distinct (map key (filter P (orderByDesc key rows)))"
  shows "filter P (orderByDesc key rows') = filter P (orderByDesc key rows)"
proof -
  have "filter P (orderByDesc key rows) = filter P (orderByDesc key rows')"
  proof (rule descending_unique [where key = key])
    show "sorted_wrt (\<lambda>a b. key b \<le> key a) (filter P (orderByDesc key rows))"
      "sorted_wrt (\<lambda>a b. key b \<le> key a) (filter P (orderByDesc key rows'))"
      by (intro sorted_wrt_filter orderByDesc_descending)+
    show "mset (filter P (orderByDesc key rows)) = mset (filter P (orderByDesc key rows'))"
      using assms(1) by (simp add: mset_orderByDesc)
    show "distinct (map key (filter P (orderByDesc key rows)))"
      by (rule assms(2))
  qed
  then show ?thesis by simp
qed

lemma tag_dataset_rearranged:
  assumes "mset rows' = mset (tags db)"
    and "distinct (map TagEntity.createdAt (TagRepository_dataset db searchTerm))"
  shows "TagRepository_dataset (db\<lparr>tags := rows'\<rparr>) searchTerm =
         TagRepository_dataset db searchTerm"
proof -
  from assms(2) have "distinct (map TagEntity.createdAt
     (filter (matches (aliased ''tag'' TagEntity_columns) (collation db)
                (TagRepository_getQueryBuilder [''name''] searchTerm))
        (orderByDesc TagEntity.createdAt (tags db))))"
    by (simp only: TagRepository_dataset_def)
  from orderByDesc_rearranged [OF assms(1) this] show ?thesis
    by (simp add: TagRepository_dataset_def)
qed

lemma blog_dataset_rearranged:
  assumes "mset rows' = mset (blogs db)"
    and "distinct (map BlogEntity.createdAt (BlogRepository_dataset db userId searchTerm))"
  shows "BlogRepository_dataset (db\<lparr>blogs := rows'\<rparr>) userId searchTerm =
         BlogRepository_dataset db userId searchTerm"
proof -
  from assms(2) have "distinct (map BlogEntity.createdAt
     (filter (matches (aliased ''blog'' BlogEntity_columns) (collation db)
                (BlogRepository_getQueryBuilder userId
                   [''title'', ''content'', ''published''] searchTerm))
        (orderByDesc BlogEntity.createdAt (blogs db))))"
    by (simp only: BlogRepository_dataset_def)
  from orderByDesc_rearranged [OF assms(1) this] show ?thesis
    by (simp add: BlogRepository_dataset_def)
qed

lemma length_filter_orderByDesc:
  assumes "mset rows' = mset rows"
  shows "length (filter P (orderByDesc key rows')) = length (filter P (orderByDesc key rows))"
proof -
  have "mset (filter P (orderByDesc key rows')) = mset (filter P (orderByDesc key rows))"
    using assms by (simp add: mset_orderByDesc)
  then show ?thesis
    by (rule mset_eq_length)
qed

lemma tag_dataset_length:
  assumes "mset rows' = mset (tags db)"
  shows "length (TagRepository_dataset (db\<lparr>tags := rows'\<rparr>) searchTerm) =
         length (TagRepository_dataset db searchTerm)"
  using length_filter_orderByDesc [OF assms]
  by (simp add: TagRepository_dataset_def)

lemma blog_dataset_length:
  assumes "mset rows' = mset (blogs db)"
  shows "length (BlogRepository_dataset (db\<lparr>blogs := rows'\<rparr>) userId searchTerm) =
         length (BlogRepository_dataset db userId searchTerm)"
  using length_filter_orderByDesc [OF assms]
  by (simp add: BlogRepository_dataset_def)

text \<open>
  C8 as stated fails when creation times coincide.  The store \<open>tie_db\<close> holds two tags of
  the same creation time; both arrangements of the two are in descending order.  Page 1 of
  size 1, asked of the store when it yields the tags in the one order, and page 2, asked
  when it yields them in the other, are the same tag: the pages are not disjoint, and the
  other tag is on neither.
\<close>

theorem pages_overlap_on_equal_times:
  "mset (tags tie_db_rearranged) = mset (tags tie_db) \<and>
   TagRepository_dataset tie_db None = [tagA, tagB] \<and>
   TagRepository_dataset tie_db_rearranged None = [tagB, tagA] \<and>
   TagEntity.createdAt tagA = TagEntity.createdAt tagB \<and>
   2 * 1 \<le> length (TagRepository_dataset tie_db None) \<and>
   TagRepository_getAll tie_db ((1 - 1) * 1) 1 None = Inr \<lparr>result = [tagA], total = 2\<rparr> \<and>
   TagRepository_getAll tie_db_rearranged ((2 - 1) * 1) 1 None =
     Inr \<lparr>result = [tagA], total = 2\<rparr> \<and>
   set [tagA] \<inter> set [tagA] \<noteq> {}"
proof -
  have m: "mset (tags tie_db_rearranged) = mset (tags tie_db)"
    by (simp add: tie_db_rearranged_def tie_db_def)
  have a: "TagRepository_dataset tie_db None = [tagA, tagB]"
    by code_simp
  have b: "TagRepository_dataset tie_db_rearranged None = [tagB, tagA]"
    by code_simp
  have c: "TagEntity.createdAt tagA = TagEntity.createdAt tagB"
    by (simp add: tagA_def tagB_def)
  have d: "2 * 1 \<le> length (TagRepository_dataset tie_db None)"
    by (simp add: a)
  have e: "TagRepository_getAll tie_db ((1 - 1) * 1) 1 None =
     Inr \<lparr>result = [tagA], total = 2\<rparr>"
    by code_simp
  have f: "TagRepository_getAll tie_db_rearranged ((2 - 1) * 1) 1 None =
     Inr \<lparr>result = [tagA], total = 2\<rparr>"
    by code_simp
  have g: "set [tagA] \<inter> set [tagA] \<noteq> {}"
    by simp
  show ?thesis by (intro conjI m a b c d e f g)
qed

text \<open>
  C8, amended, for the tag list and the blog list.  Let no two rows of the query's dataset
  have the same creation time and the dataset have at least \<open>2 * n\<close> rows, \<open>n\<close> at least 1.
  Then the queries for page 1 and page 2 of size \<open>n\<close> (the skips \<open>(1 - 1) * n\<close> and
  \<open>(2 - 1) * n\<close> of the controller) return pages that share no row and that, one after the
  other, are the first \<open>2 * n\<close> rows of the dataset, in whatever order the store yields the
  rows of the table to the second query.  For every window and every such order the total
  is the number of rows of the dataset, and the dataset is in descending order of creation
  time.
\<close>

theorem pages_tile_without_ties:
  "(1 \<le> n \<and> mset tagRows = mset (tags db) \<and>
    distinct (map TagEntity.createdAt (TagRepository_dataset db searchTerm)) \<and>
    2 * n \<le> length (TagRepository_dataset db searchTerm) \<longrightarrow>
      (\<exists>p1 p2. TagRepository_getAll db ((1 - 1) * n) n searchTerm = Inr p1 \<and>
         TagRepository_getAll (db\<lparr>tags := tagRows\<rparr>) ((2 - 1) * n) n searchTerm = Inr p2 \<and>
         set (result p1) \<inter> set (result p2) = {} \<and>
         result p1 @ result p2 = take (2 * n) (TagRepository_dataset db searchTerm))) \<and>
   (mset tagRows = mset (tags db) \<longrightarrow>
      (\<exists>p. TagRepository_getAll (db\<lparr>tags := tagRows\<rparr>) skp tk searchTerm = Inr p \<and>
         total p = length (TagRepository_dataset db searchTerm))) \<and>
   sorted_wrt (\<lambda>a b. TagEntity.createdAt b \<le> TagEntity.createdAt a)
     (TagRepository_dataset db searchTerm) \<and>
   (1 \<le> n \<and> mset blogRows = mset (blogs db) \<and>
    distinct (map BlogEntity.createdAt (BlogRepository_dataset db userId searchTerm)) \<and>
    2 * n \<le> length (BlogRepository_dataset db userId searchTerm) \<longrightarrow>
      (\<exists>p1 p2. BlogRepository_getAll db userId ((1 - 1) * n) n searchTerm = Inr p1 \<and>
         BlogRepository_getAll (db\<lparr>blogs := blogRows\<rparr>) userId ((2 - 1) * n) n searchTerm =
           Inr p2 \<and>
         set (result p1) \<inter> set (result p2) = {} \<and>
         result p1 @ result p2 = take (2 * n) (BlogRepository_dataset db userId searchTerm))) \<and>
   (mset blogRows = mset (blogs db) \<longrightarrow>
      (\<exists>p. BlogRepository_getAll (db\<lparr>blogs := blogRows\<rparr>) userId skp tk searchTerm = Inr p \<and>
         total p = length (BlogRepository_dataset db userId searchTerm))) \<and>
   sorted_wrt (\<lambda>a b. BlogEntity.createdAt b \<le> BlogEntity.createdAt a)
     (BlogRepository_dataset db userId searchTerm)"
proof (intro conjI impI)
  assume h: "1 \<le> n \<and> mset tagRows = mset (tags db) \<and>
    distinct (map TagEntity.createdAt (TagRepository_dataset db searchTerm)) \<and>
    2 * n \<le> length (TagRepository_dataset db searchTerm)"
  then have n: "n \<noteq> 0" and m: "mset tagRows = mset (tags db)"
    and d: "distinct (map TagEntity.createdAt (TagRepository_dataset db searchTerm))"
    by simp_all
  have e: "TagRepository_dataset (db\<lparr>tags := tagRows\<rparr>) searchTerm =
      TagRepository_dataset db searchTerm"
    by (rule tag_dataset_rearranged [OF m d])
  from d have "distinct (TagRepository_dataset db searchTerm)"
    by (simp add: distinct_map)
  from two_pages [OF this, of n] n
  show "\<exists>p1 p2. TagRepository_getAll db ((1 - 1) * n) n searchTerm = Inr p1 \<and>
         TagRepository_getAll (db\<lparr>tags := tagRows\<rparr>) ((2 - 1) * n) n searchTerm = Inr p2 \<and>
         set (result p1) \<inter> set (result p2) = {} \<and>
         result p1 @ result p2 = take (2 * n) (TagRepository_dataset db searchTerm)"
    by (simp add: tag_getAll_page e)
next
  assume "mset tagRows = mset (tags db)"
  from tag_dataset_length [OF this]
  show "\<exists>p. TagRepository_getAll (db\<lparr>tags := tagRows\<rparr>) skp tk searchTerm = Inr p \<and>
         total p = length (TagRepository_dataset db searchTerm)"
    by (simp add: tag_getAll_page)
next
  assume h: "1 \<le> n \<and> mset blogRows = mset (blogs db) \<and>
    distinct (map BlogEntity.createdAt (BlogRepository_dataset db userId searchTerm)) \<and>
    2 * n \<le> length (BlogRepository_dataset db userId searchTerm)"
  then have n: "n \<noteq> 0" and m: "mset blogRows = mset (blogs db)"
    and d: "distinct (map BlogEntity.createdAt (BlogRepository_dataset db userId searchTerm))"
    by simp_all
  have e: "BlogRepository_dataset (db\<lparr>blogs := blogRows\<rparr>) userId searchTerm =
      BlogRepository_dataset db userId searchTerm"
    by (rule blog_dataset_rearranged [OF m d])
  from d have "distinct (BlogRepository_dataset db userId searchTerm)"
    by (simp add: distinct_map)
  from two_pages [OF this, of n] n
  show "\<exists>p1 p2. BlogRepository_getAll db userId ((1 - 1) * n) n searchTerm = Inr p1 \<and>
         BlogRepository_getAll (db\<lparr>blogs := blogRows\<rparr>) userId ((2 - 1) * n) n searchTerm =
           Inr p2 \<and>
         set (result p1) \<inter> set (result p2) = {} \<and>
         result p1 @ result p2 = take (2 * n) (BlogRepository_dataset db userId searchTerm)"
    by (simp add: blog_getAll_page e)
next
  assume "mset blogRows = mset (blogs db)"
  from blog_dataset_length [OF this]
  show "\<exists>p. BlogRepository_getAll (db\<lparr>blogs := blogRows\<rparr>) userId skp tk searchTerm = Inr p \<and>
         total p = length (BlogRepository_dataset db userId searchTerm)"
    by (simp add: blog_getAll_page)
qed (simp_all add: tag_dataset_descending blog_dataset_descending)

theorem pages_tile_without_ties_witness:
  "TagRepository_getAll example_db 0 1 None =
     Inr \<lparr>result = [tag_row 7 ''goroutine''], total = 7\<rparr> \<and>
   TagRepository_getAll (example_db\<lparr>tags := rev (tags example_db)\<rparr>) 1 1 None =
     Inr \<lparr>result = [tag_row 6 ''gofmt''], total = 7\<rparr> \<and>
   set [tag_row 7 ''goroutine''] \<inter> set [tag_row 6 ''gofmt''] = {} \<and>
   [tag_row 7 ''goroutine''] @ [tag_row 6 ''gofmt''] =
     take (2 * 1) (TagRepository_dataset example_db None) \<and>
   BlogRepository_getAll example_db 1 0 1 None = Inr \<lparr>result = [blog3], total = 2\<rparr> \<and>
   BlogRepository_getAll (example_db\<lparr>blogs := rev (blogs example_db)\<rparr>) 1 1 1 None =
     Inr \<lparr>result = [blog1], total = 2\<rparr> \<and>
   set [blog3] \<inter> set [blog1] = {} \<and>
   [blog3] @ [blog1] = take (2 * 1) (BlogRepository_dataset example_db 1 None)"
proof -
  have t1: "TagRepository_getAll example_db 0 1 None =
     Inr \<lparr>result = [tag_row 7 ''goroutine''], total = 7\<rparr>"
    by code_simp
  have t2: "TagRepository_getAll (example_db\<lparr>tags := rev (tags example_db)\<rparr>) 1 1 None =
     Inr \<lparr>result = [tag_row 6 ''gofmt''], total = 7\<rparr>"
    by code_simp
  have b1: "BlogRepository_getAll example_db 1 0 1 None = Inr \<lparr>result = [blog3], total = 2\<rparr>"
    by code_simp
  have b2: "BlogRepository_getAll (example_db\<lparr>blogs := rev (blogs example_db)\<rparr>) 1 1 1 None =
     Inr \<lparr>result = [blog1], total = 2\<rparr>"
    by code_simp
  have dt: "distinct (map TagEntity.createdAt (TagRepository_dataset example_db None))"
    "2 * 1 \<le> length (TagRepository_dataset example_db None)"
    by code_simp+
  have db: "distinct (map BlogEntity.createdAt (BlogRepository_dataset example_db 1 None))"
    "2 * 1 \<le> length (BlogRepository_dataset example_db 1 None)"
    by code_simp+
  have ht: "(1::nat) \<le> 1 \<and> mset (rev (tags example_db)) = mset (tags example_db) \<and>
    distinct (map TagEntity.createdAt (TagRepository_dataset example_db None)) \<and>
    2 * 1 \<le> length (TagRepository_dataset example_db None)"
    using dt by simp
  have hb: "(1::nat) \<le> 1 \<and> mset (rev (blogs example_db)) = mset (blogs example_db) \<and>
    distinct (map BlogEntity.createdAt (BlogRepository_dataset example_db 1 None)) \<and>
    2 * 1 \<le> length (BlogRepository_dataset example_db 1 None)"
    using db by simp
  note w = pages_tile_without_ties [where n = 1 and tagRows = "rev (tags example_db)"
      and db = example_db and searchTerm = None and blogRows = "rev (blogs example_db)"
      and userId = 1 and skp = 0 and tk = 1]
  from w [THEN conjunct1, THEN mp, OF ht] t1 t2
  have c1: "set [tag_row 7 ''goroutine''] \<inter> set [tag_row 6 ''gofmt''] = {}"
    "[tag_row 7 ''goroutine''] @ [tag_row 6 ''gofmt''] =
     take (2 * 1) (TagRepository_dataset example_db None)"
    by auto
  from w [THEN conjunct2, THEN conjunct2, THEN conjunct2, THEN conjunct1, THEN mp, OF hb] b1 b2
  have c2: "set [blog3] \<inter> set [blog1] = {}"
    "[blog3] @ [blog1] = take (2 * 1) (BlogRepository_dataset example_db 1 None)"
    by auto
  show ?thesis by (intro conjI t1 t2 c1 b1 b2 c2)
qed

section \<open>The prefix rule\<close>

lemma like_percent [simp]: "like co ''%'' s"
  by (induction s) simp_all

lemma like_literal_prefix:
  "\<forall>c\<in>set k. \<not> like_meta c \<Longrightarrow> like co (k @ ''%'') s = starts_with co k s"
proof (induction k arbitrary: s)
  case Nil
  then show ?case by (simp add: starts_with_def)
next
  case (Cons a k)
  then have a: "a \<noteq> CHR ''%''" "a \<noteq> CHR ''_''" "a \<noteq> CHR 0x5C"
    and ih: "like co (k @ ''%'') t = starts_with co k t" for t
    by (simp_all add: like_meta_def)
  show ?case
  proof (cases s)
    case Nil
    with a show ?thesis by (simp add: starts_with_def)
  next
    case (Cons c cs)
    have "collate co c = collate co a \<longleftrightarrow> collate co a = collate co c"
      by (rule eq_commute)
    with a Cons show ?thesis
      by (simp add: ih) (simp add: starts_with_def)
  qed
qed

lemma eval_from_ors:
  "eval_from ev acc (map (\<lambda>x. (WOr, g x)) xs) = (acc \<or> (\<exists>x\<in>set xs. ev (g x)))"
  by (induction xs arbitrary: acc) auto

lemma forEachField_Suc:
  "forEachField alias k (Suc i) flds qb =
     qb\<lparr>wheres := wheres qb @
        map (\<lambda>f. (WOr, Atom (Like (alias @ CHR ''.'' # f) (k @ ''%'')))) flds\<rparr>"
  by (induction flds arbitrary: i qb) (simp_all add: orWhere_def)

lemma aliased_path [simp]: "aliased alias cols (alias @ CHR ''.'' # f) = cols f"
  by (simp add: aliased_def)

lemma eval_like_field:
  assumes "k \<noteq> []" and "\<forall>c\<in>set k. \<not> like_meta c"
  shows "eval_cond (aliased alias cols) co r (Atom (Like (alias @ CHR ''.'' # f) (k @ ''%''))) =
         starts_with co k (read_as_text cols f r)"
proof (cases "cols f")
  case None
  with assms(1) show ?thesis
    by (simp add: read_as_text_def starts_with_def)
next
  case (Some col)
  with assms(2) show ?thesis
    by (simp add: read_as_text_def like_literal_prefix)
qed

text \<open>
  The clauses of the field loop are one disjunction.  With no field there is no clause, and
  every row passes.
\<close>

lemma keywordSearch_matches:
  assumes "k \<noteq> []" and "\<forall>c\<in>set k. \<not> like_meta c"
  shows "matches (aliased alias cols) co (keywordSearch alias flds (Some k) createQueryBuilder) r =
         (flds = [] \<or> (\<exists>f\<in>set flds. starts_with co k (read_as_text cols f r)))"
proof (cases flds)
  case Nil
  with assms(1) show ?thesis
    by (simp add: keywordSearch_def whenSupplied_def matches_def createQueryBuilder_def)
next
  case (Cons f fs)
  have "eval_cond (aliased alias cols) co r (Atom (Like (alias @ CHR ''.'' # g) (k @ ''%''))) =
        starts_with co k (read_as_text cols g r)" for g
    by (rule eval_like_field [OF assms])
  then show ?thesis
    using assms(1) unfolding Cons
    by (simp add: keywordSearch_def whenSupplied_def forEachField_Suc where'_def matches_def
        createQueryBuilder_def eval_from_ors del: eval_cond.simps)
qed

lemma read_name_as_text: "read_as_text TagEntity_columns ''name'' t = TagEntity.name t"
  by (simp add: read_as_text_def TagEntity_columns_def)

lemma tag_dataset_prefix:
  assumes "k \<noteq> []" and "\<forall>c\<in>set k. \<not> like_meta c"
  shows "TagRepository_dataset db (Some k) =
         filter (\<lambda>t. starts_with (collation db) k (TagEntity.name t))
           (orderByDesc TagEntity.createdAt (tags db))"
proof -
  have "matches (aliased ''tag'' TagEntity_columns) (collation db)
          (TagRepository_getQueryBuilder [''name''] (Some k)) t =
        starts_with (collation db) k (TagEntity.name t)"
    for t
    unfolding TagRepository_getQueryBuilder_def
    by (simp add: keywordSearch_matches [OF assms] read_name_as_text)
  then show ?thesis
    unfolding TagRepository_dataset_def by (intro filter_cong) simp_all
qed

text \<open>
  The dropdown statement: its select list is the field list under the alias, its limit is
  five, and its where-clauses are those of the field loop.
\<close>

lemma forEachField_window:
  "qskip (forEachField alias k i flds qb) = qskip qb"
  "qtake (forEachField alias k i flds qb) = qtake qb"
  "selects (forEachField alias k i flds qb) = selects qb"
  by (induction flds arbitrary: i qb) (simp_all add: where'_def orWhere_def)

lemma keywordSearch_window:
  "qskip (keywordSearch alias flds keyword qb) = qskip qb"
  "qtake (keywordSearch alias flds keyword qb) = qtake qb"
  "selects (keywordSearch alias flds keyword qb) = selects qb"
  by (simp_all add: keywordSearch_def whenSupplied_def forEachField_window split: option.splits)


lemma keywordSearch_paths:
  "set (concat (map (cond_paths \<circ> snd)
     (wheres (keywordSearch alias flds keyword createQueryBuilder)))) \<subseteq>
   (\<lambda>f. alias @ CHR ''.'' # f) ` set flds"
proof (cases flds)
  case Nil
  then show ?thesis
    by (simp add: keywordSearch_def whenSupplied_def createQueryBuilder_def
        split: option.splits)
next
  case (Cons f fs)
  then show ?thesis
    by (auto simp: keywordSearch_def whenSupplied_def forEachField_Suc where'_def
        createQueryBuilder_def split: option.splits)
qed


lemma dropdown_unknown_column:
  "unknown_column (aliased alias cols)
     (select (map (\<lambda>field. alias @ CHR ''.'' # field) flds)
        (keywordSearch alias flds keyword createQueryBuilder)) =
   (\<exists>f\<in>set flds. cols f = None)"
proof -
  let ?qb = "keywordSearch alias flds keyword createQueryBuilder"
  have p: "set (paths (select (map (\<lambda>field. alias @ CHR ''.'' # field) flds) ?qb)) =
        (\<lambda>f. alias @ CHR ''.'' # f) ` set flds"
    using keywordSearch_paths [of "alias" flds keyword]
    by (auto simp: paths_def select_def)
  show ?thesis
    unfolding unknown_column_def list_ex_iff p by auto
qed

lemma getMany_dropdown:
  assumes "k \<noteq> []" and "\<forall>c\<in>set k. \<not> like_meta c" and "\<forall>f\<in>set flds. cols f \<noteq> None"
  shows "getMany (aliased alias cols) co rows
           (take' 5 (select (map (\<lambda>field. alias @ CHR ''.'' # field) flds)
              (keywordSearch alias flds (Some k) createQueryBuilder))) =
         Inr (take 5 (filter (\<lambda>r. \<exists>f\<in>set flds. starts_with co k (read_as_text cols f r)) rows))"
proof (cases "flds = []")
  case True
  let ?qb = "take' 5 (select (map (\<lambda>field. alias @ CHR ''.'' # field) flds)
              (keywordSearch alias flds (Some k) createQueryBuilder))"
  have u: "\<not> unknown_column (aliased alias cols) ?qb"
    using assms(3) by (simp add: dropdown_unknown_column)
  have s: "selects ?qb = Some []"
    using True by (simp add: take'_def select_def)
  from u s True show ?thesis
    by (simp add: getMany_def)
next
  case False
  let ?qb = "take' 5 (select (map (\<lambda>field. alias @ CHR ''.'' # field) flds)
              (keywordSearch alias flds (Some k) createQueryBuilder))"
  have m: "matches (aliased alias cols) co ?qb r =
        (\<exists>f\<in>set flds. starts_with co k (read_as_text cols f r))" for r
    using keywordSearch_matches [OF assms(1,2), of "alias" cols co flds r] False
    by (simp add: matches_def select_def)
  have u: "\<not> unknown_column (aliased alias cols) ?qb"
    using assms(3) by (simp add: dropdown_unknown_column)
  have s: "selects ?qb \<noteq> Some []"
    using False by (simp add: take'_def select_def)
  have w: "window ?qb xs = take 5 xs" for xs :: "'a list"
    by (simp add: window_def take'_def select_def keywordSearch_window createQueryBuilder_def)
  have "filter (matches (aliased alias cols) co ?qb) rows =
        filter (\<lambda>r. \<exists>f\<in>set flds. starts_with co k (read_as_text cols f r)) rows"
    by (intro filter_cong) (simp_all only: m)
  with u s w show ?thesis
    by (simp only: getMany_def if_False)
qed

lemma tag_dropdown_rule:
  assumes "k \<noteq> []" and "\<forall>c\<in>set k. \<not> like_meta c"
    and "\<forall>f\<in>set flds. TagEntity_columns f \<noteq> None"
  shows "TagRepository_findAllDropdown db flds (Some k) =
         Inr (take 5 (filter (\<lambda>t. \<exists>f\<in>set flds.
                 starts_with (collation db) k (read_as_text TagEntity_columns f t)) (tags db)))"
  using getMany_dropdown [OF assms, of "''tag''" "collation db" "tags db"]
  by (simp add: TagRepository_findAllDropdown_def TagRepository_getQueryBuilder_def)

lemma tag_dropdown_columns:
  assumes "TagRepository_findAllDropdown db flds keyword = Inr rows"
  shows "\<forall>f\<in>set flds. TagEntity_columns f \<noteq> None"
proof -
  have "\<not> unknown_column (aliased ''tag'' TagEntity_columns)
     (select (map (\<lambda>field. ''tag'' @ CHR ''.'' # field) flds)
        (keywordSearch ''tag'' flds keyword createQueryBuilder))"
    using assms
    by (simp add: TagRepository_findAllDropdown_def TagRepository_getQueryBuilder_def
        getMany_def split: if_splits)
  then show ?thesis
    unfolding dropdown_unknown_column by simp
qed

text \<open>
  C5 as stated fails: the tag list searched for \<open>dj_n\<close> returns the tag \<open>django\<close>, whose name
  does not start with \<open>dj_n\<close>, neither character for character nor under the store's
  collation.
\<close>

theorem prefix_rule_counterexample:
  "TagRepository_getAll example_db 0 10 (Some ''dj_n'') =
     Inr \<lparr>result = [tag_row 2 ''django''], total = 1\<rparr> \<and>
   \<not> prefix ''dj_n'' (TagEntity.name (tag_row 2 ''django'')) \<and>
   \<not> starts_with (collation example_db) ''dj_n'' (TagEntity.name (tag_row 2 ''django''))"
proof -
  have a: "TagRepository_getAll example_db 0 10 (Some ''dj_n'') =
     Inr \<lparr>result = [tag_row 2 ''django''], total = 1\<rparr>"
    by code_simp
  have b: "\<not> prefix ''dj_n'' (TagEntity.name (tag_row 2 ''django''))"
    by code_simp
  have c: "\<not> starts_with (collation example_db) ''dj_n''
              (TagEntity.name (tag_row 2 ''django''))"
    by code_simp
  show ?thesis by (intro conjI a b c)
qed

text \<open>
  C5, amended.  Let the keyword be supplied (not empty) and contain none of \<open>%\<close>, \<open>_\<close> and
  the backslash; a text starts with the keyword when it does so under the store's
  collation.  The clauses that the field loop of every list and dropdown query builds hold
  of a row exactly when some field of the list, read as text, starts with the keyword; for
  an empty list the loop builds no clause.  In the tag list and the tag dropdown these are
  the only clauses.  The tag list, whose one search field is the name, returns of the tags
  whose name starts with the keyword, most recent first, the window asked for, and their
  number as total.  The tag dropdown over a list of fields that are columns returns rows;
  every row it returns is a tag of which some field of the list, read as text, starts with
  the keyword, and it returns as many rows as there are such tags, up to its limit of
  five.
\<close>

theorem keyword_is_prefix_match:
  "k \<noteq> [] \<and> (\<forall>c\<in>set k. \<not> like_meta c) \<longrightarrow>
     matches (aliased al cols) co (keywordSearch al flds' (Some k) createQueryBuilder) r =
       (flds' = [] \<or> (\<exists>f\<in>set flds'. starts_with co k (read_as_text cols f r))) \<and>
     (\<exists>p. TagRepository_getAll db skp tk (Some k) = Inr p \<and>
        total p = length (filter (\<lambda>t. starts_with (collation db) k (TagEntity.name t))
                            (orderByDesc TagEntity.createdAt (tags db))) \<and>
        result p =
          (if tk = 0
           then drop skp (filter (\<lambda>t. starts_with (collation db) k (TagEntity.name t))
                            (orderByDesc TagEntity.createdAt (tags db)))
           else take tk (drop skp (filter (\<lambda>t. starts_with (collation db) k (TagEntity.name t))
                                     (orderByDesc TagEntity.createdAt (tags db)))))) \<and>
     ((\<forall>f\<in>set flds. TagEntity_columns f \<noteq> None) \<longrightarrow>
        (\<exists>rows. TagRepository_findAllDropdown db flds (Some k) = Inr rows)) \<and>
     (\<forall>rows. TagRepository_findAllDropdown db flds (Some k) = Inr rows \<longrightarrow>
        (\<forall>t\<in>set rows. t \<in> set (tags db) \<and>
           (\<exists>f\<in>set flds.
              starts_with (collation db) k (read_as_text TagEntity_columns f t))) \<and>
        length rows =
          min 5 (length (filter (\<lambda>t. \<exists>f\<in>set flds.
                   starts_with (collation db) k (read_as_text TagEntity_columns f t))
                 (tags db))))"
proof (intro impI conjI allI; (elim conjE)?)
  assume "k \<noteq> []" "\<forall>c\<in>set k. \<not> like_meta c"
  then show "matches (aliased al cols) co
       (keywordSearch al flds' (Some k) createQueryBuilder) r =
       (flds' = [] \<or> (\<exists>f\<in>set flds'. starts_with co k (read_as_text cols f r)))"
    by (rule keywordSearch_matches)
next
  assume "k \<noteq> []" "\<forall>c\<in>set k. \<not> like_meta c"
  then show "\<exists>p. TagRepository_getAll db skp tk (Some k) = Inr p \<and>
        total p = length (filter (\<lambda>t. starts_with (collation db) k (TagEntity.name t))
                            (orderByDesc TagEntity.createdAt (tags db))) \<and>
        result p =
          (if tk = 0
           then drop skp (filter (\<lambda>t. starts_with (collation db) k (TagEntity.name t))
                            (orderByDesc TagEntity.createdAt (tags db)))
           else take tk (drop skp (filter (\<lambda>t. starts_with (collation db) k (TagEntity.name t))
                                     (orderByDesc TagEntity.createdAt (tags db)))))"
    by (simp add: tag_getAll_page tag_dataset_prefix)
next
  assume "k \<noteq> []" "\<forall>c\<in>set k. \<not> like_meta c" "\<forall>f\<in>set flds. TagEntity_columns f \<noteq> None"
  then show "\<exists>rows. TagRepository_findAllDropdown db flds (Some k) = Inr rows"
    by (simp add: tag_dropdown_rule)
next
  fix rows
  assume k: "k \<noteq> []" "\<forall>c\<in>set k. \<not> like_meta c"
    and r: "TagRepository_findAllDropdown db flds (Some k) = Inr rows"
  from tag_dropdown_rule [OF k tag_dropdown_columns [OF r], of db] r
  have e: "rows = take 5 (filter (\<lambda>t. \<exists>f\<in>set flds.
                 starts_with (collation db) k (read_as_text TagEntity_columns f t)) (tags db))"
    by simp
  show "\<forall>t\<in>set rows. t \<in> set (tags db) \<and>
           (\<exists>f\<in>set flds.
              starts_with (collation db) k (read_as_text TagEntity_columns f t))"
  proof
    fix t
    assume "t \<in> set rows"
    then have "t \<in> set (filter (\<lambda>t. \<exists>f\<in>set flds.
                 starts_with (collation db) k (read_as_text TagEntity_columns f t)) (tags db))"
      unfolding e by (rule in_set_takeD)
    then show "t \<in> set (tags db) \<and>
           (\<exists>f\<in>set flds.
              starts_with (collation db) k (read_as_text TagEntity_columns f t))"
      by simp
  qed
  show "length rows =
          min 5 (length (filter (\<lambda>t. \<exists>f\<in>set flds.
                   starts_with (collation db) k (read_as_text TagEntity_columns f t))
                 (tags db)))"
    unfolding e by (simp add: min.commute)
qed

theorem keyword_is_prefix_match_witness:
  "matches (aliased ''blog'' BlogEntity_columns) (collation example_db)
     (keywordSearch ''blog'' [''title''] (Some ''Go'') createQueryBuilder) blog1 \<and>
   \<not> matches (aliased ''blog'' BlogEntity_columns) (collation example_db)
     (keywordSearch ''blog'' [''title''] (Some ''Go'') createQueryBuilder) blog2 \<and>
   starts_with (collation example_db) ''Go'' ''Golang Basics'' \<and>
   \<not> starts_with (collation example_db) ''Go'' ''Algorithms in Go'' \<and>
   TagRepository_getAll example_db 0 10 (Some ''GO'') =
     Inr \<lparr>result = [tag_row 7 ''goroutine'', tag_row 6 ''gofmt'', tag_row 5 ''gorm'',
                     tag_row 4 ''gopher'', tag_row 3 ''go-kit'', tag_row 1 ''golang''],
          total = 6\<rparr> \<and>
   total \<lparr>result = [tag_row 7 ''goroutine'', tag_row 6 ''gofmt'', tag_row 5 ''gorm'',
                    tag_row 4 ''gopher'', tag_row 3 ''go-kit'', tag_row 1 ''golang''],
          total = 6\<rparr> =
     length (filter (\<lambda>t. starts_with (collation example_db) ''GO'' (TagEntity.name t))
               (orderByDesc TagEntity.createdAt (tags example_db))) \<and>
   TagRepository_findAllDropdown example_db [''id'', ''name''] (Some ''GO'') =
     Inr [tag_row 1 ''golang'', tag_row 3 ''go-kit'', tag_row 4 ''gopher'', tag_row 5 ''gorm'',
          tag_row 6 ''gofmt''] \<and>
   list_all (\<lambda>t. t \<in> set (tags example_db) \<and>
               list_ex (\<lambda>f. starts_with (collation example_db) ''GO''
                               (read_as_text TagEntity_columns f t)) [''id'', ''name''])
     [tag_row 1 ''golang'', tag_row 3 ''go-kit'', tag_row 4 ''gopher'', tag_row 5 ''gorm'',
      tag_row 6 ''gofmt''] \<and>
   length [tag_row 1 ''golang'', tag_row 3 ''go-kit'', tag_row 4 ''gopher'', tag_row 5 ''gorm'',
           tag_row 6 ''gofmt''] =
     min 5 (length (filter (\<lambda>t. list_ex (\<lambda>f. starts_with (collation example_db) ''GO''
                                     (read_as_text TagEntity_columns f t)) [''id'', ''name''])
                      (tags example_db)))"
proof -
  let ?six = "[tag_row 7 ''goroutine'', tag_row 6 ''gofmt'', tag_row 5 ''gorm'',
               tag_row 4 ''gopher'', tag_row 3 ''go-kit'', tag_row 1 ''golang'']"
  let ?five = "[tag_row 1 ''golang'', tag_row 3 ''go-kit'', tag_row 4 ''gopher'',
                tag_row 5 ''gorm'', tag_row 6 ''gofmt'']"
  have h: "''GO'' \<noteq> [] \<and> (\<forall>c\<in>set ''GO''. \<not> like_meta c)"
    "''Go'' \<noteq> [] \<and> (\<forall>c\<in>set ''Go''. \<not> like_meta c)"
    by (simp_all add: like_meta_def)
  have a: "TagRepository_getAll example_db 0 10 (Some ''GO'') = Inr \<lparr>result = ?six, total = 6\<rparr>"
    by code_simp
  have d: "TagRepository_findAllDropdown example_db [''id'', ''name''] (Some ''GO'') = Inr ?five"
    by code_simp
  have s1: "starts_with (collation example_db) ''Go'' ''Golang Basics''"
    by code_simp
  have s2: "\<not> starts_with (collation example_db) ''Go'' ''Algorithms in Go''"
    by code_simp
  have b: "read_as_text BlogEntity_columns ''title'' blog1 = ''Golang Basics''"
    "read_as_text BlogEntity_columns ''title'' blog2 = ''Algorithms in Go''"
    by (simp_all add: read_as_text_def BlogEntity_columns_def blog1_def blog2_def)
  note g = keyword_is_prefix_match [where k = "''Go''" and al = "''blog''"
      and cols = BlogEntity_columns and co = "collation example_db" and flds' = "[''title'']",
      THEN mp, OF h(2), THEN conjunct1]
  have g1: "matches (aliased ''blog'' BlogEntity_columns) (collation example_db)
     (keywordSearch ''blog'' [''title''] (Some ''Go'') createQueryBuilder) blog1"
    unfolding g [of blog1] using s1 by (simp add: b)
  have g2: "\<not> matches (aliased ''blog'' BlogEntity_columns) (collation example_db)
     (keywordSearch ''blog'' [''title''] (Some ''Go'') createQueryBuilder) blog2"
    unfolding g [of blog2] using s2 by (simp add: b)
  note w = keyword_is_prefix_match [where k = "''GO''" and db = example_db and skp = 0
      and tk = 10 and flds = "[''id'', ''name'']", THEN mp, OF h(1), THEN conjunct2]
  from w [THEN conjunct1] obtain p where
    p: "TagRepository_getAll example_db 0 10 (Some ''GO'') = Inr p"
      "total p = length (filter (\<lambda>t. starts_with (collation example_db) ''GO''
                                    (TagEntity.name t))
                 (orderByDesc TagEntity.createdAt (tags example_db)))"
    by blast
  from p(1) have pe: "p = \<lparr>result = ?six, total = 6\<rparr>"
    unfolding a by simp
  have t: "total \<lparr>result = ?six, total = 6\<rparr> =
     length (filter (\<lambda>t. starts_with (collation example_db) ''GO'' (TagEntity.name t))
               (orderByDesc TagEntity.createdAt (tags example_db)))"
    using p(2) unfolding pe .
  note r0 = w [THEN conjunct2, THEN conjunct2, THEN spec, THEN mp, OF d]
  have r1: "list_all (\<lambda>t. t \<in> set (tags example_db) \<and>
               list_ex (\<lambda>f. starts_with (collation example_db) ''GO''
                               (read_as_text TagEntity_columns f t)) [''id'', ''name'']) ?five"
    using r0 [THEN conjunct1] by (simp only: list_all_iff list_ex_iff)
  have r2: "length ?five =
     min 5 (length (filter (\<lambda>t. list_ex (\<lambda>f. starts_with (collation example_db) ''GO''
                                     (read_as_text TagEntity_columns f t)) [''id'', ''name''])
                      (tags example_db)))"
    using r0 [THEN conjunct2] by (simp only: list_ex_iff)
  show ?thesis by (intro conjI g1 g2 s1 s2 a t d r1 r2)
qed

section \<open>Updates\<close>

lemma find_SomeD: "find P xs = Some x \<Longrightarrow> P x \<and> x \<in> set xs"
  by (induction xs) (auto split: if_splits)

lemma find_by_key:
  "distinct (map pk rows) \<Longrightarrow> old \<in> set rows \<Longrightarrow> find (\<lambda>r. pk r = pk old) rows = Some old"
  by (induction rows) (auto simp: image_iff)

lemma replace_same:
  assumes "distinct (map pk rows)" and "old \<in> set rows"
  shows "map (\<lambda>r. if pk r = pk old then old else r) rows = rows"
proof (rule map_idI)
  fix x assume "x \<in> set rows"
  with assms show "(if pk x = pk old then old else x) = x"
    by (auto simp: distinct_map inj_on_def)
qed

lemma upsert_loaded:
  assumes "distinct (map pk rows)" and "old \<in> set rows" and "pk e = pk old"
  shows "upsert pk ins upd now e rows =
         (if e = old then (old, map (\<lambda>r. if pk r = pk old then old else r) rows)
          else (upd now e, map (\<lambda>r. if pk r = pk old then upd now e else r) rows))"
  using find_by_key [OF assms(1,2)] replace_same [OF assms(1,2)] assms(3)
  by (simp add: upsert_def)

lemma updateBlog_frame:
  assumes "distinct (map BlogEntity.id (blogs db))"
    and "BlogService_updateBlog db now userId i dto = Inr (saved, db')"
  shows "\<exists>old\<in>set (blogs db). BlogEntity.id old = i \<and> BlogEntity.author old = userId \<and>
      BlogEntity.id saved = BlogEntity.id old \<and>
      BlogEntity.createdAt saved = BlogEntity.createdAt old \<and>
      BlogEntity.author saved = BlogEntity.author old \<and>
      BlogEntity.title saved = orElse (UpdateBlogDto.title dto) (BlogEntity.title old) \<and>
      BlogEntity.content saved = orElse (UpdateBlogDto.content dto) (BlogEntity.content old) \<and>
      BlogEntity.published saved =
        orElse (UpdateBlogDto.published dto) (BlogEntity.published old) \<and>
      (saved = old \<or> BlogEntity.updatedAt saved = now) \<and>
      db' = db\<lparr>blogs := map (\<lambda>b. if BlogEntity.id b = i then saved else b) (blogs db)\<rparr>"
proof -
  from assms(2) obtain old where
    f: "find (\<lambda>b. BlogEntity.id b = i \<and> BlogEntity.author b = userId) (blogs db) = Some old"
    by (auto simp: BlogService_updateBlog_def BlogService_getBlogById_def
        BlogRepository_findById_def catchBlock_def split: option.splits)
  from find_SomeD [OF f] have old: "old \<in> set (blogs db)" "BlogEntity.id old = i"
    "BlogEntity.author old = userId" by auto
  define e where "e = BlogRepository_merge old
               \<lparr>DeepPartial_BlogEntity.title = UpdateBlogDto.title dto,
                DeepPartial_BlogEntity.content = UpdateBlogDto.content dto,
                DeepPartial_BlogEntity.published = UpdateBlogDto.published dto,
                DeepPartial_BlogEntity.author = Some userId\<rparr>"
  have e: "BlogEntity.id e = BlogEntity.id old"
    "BlogEntity.createdAt e = BlogEntity.createdAt old"
    "BlogEntity.author e = BlogEntity.author old"
    "BlogEntity.title e = orElse (UpdateBlogDto.title dto) (BlogEntity.title old)"
    "BlogEntity.content e = orElse (UpdateBlogDto.content dto) (BlogEntity.content old)"
    "BlogEntity.published e = orElse (UpdateBlogDto.published dto) (BlogEntity.published old)"
    using old(3) by (simp_all add: e_def BlogRepository_merge_def orElse_def)
  from assms(2) f have "BlogRepository_save db now e = Inr (saved, db')"
    by (simp add: BlogService_updateBlog_def BlogService_getBlogById_def
        BlogRepository_findById_def e_def)
  then have s: "(saved = e \<and> saved = old \<or> saved = e\<lparr>BlogEntity.updatedAt := now\<rparr>) \<and>
      db' = db\<lparr>blogs := map (\<lambda>b. if BlogEntity.id b = i then saved else b) (blogs db)\<rparr>"
    unfolding BlogRepository_save_def upsert_loaded [OF assms(1) old(1) e(1)] old(2)
    by (auto split: if_splits)
  then have t: "saved = old \<or> BlogEntity.updatedAt saved = now"
    by auto
  from s have "BlogEntity.id saved = BlogEntity.id e"
    "BlogEntity.createdAt saved = BlogEntity.createdAt e"
    "BlogEntity.author saved = BlogEntity.author e"
    "BlogEntity.title saved = BlogEntity.title e"
    "BlogEntity.content saved = BlogEntity.content e"
    "BlogEntity.published saved = BlogEntity.published e"
    by auto
  with e s t old show ?thesis
    by (intro bexI [of _ old]) simp_all
qed

lemma updateDraft_frame:
  assumes "distinct (map DraftEntity.id (drafts db))"
    and "DraftService_updateDraft db now userId i dto = Inr (saved, db')"
  shows "\<exists>old\<in>set (drafts db). DraftEntity.id old = i \<and> DraftEntity.createdBy old = userId \<and>
      DraftEntity.id saved = DraftEntity.id old \<and>
      DraftEntity.createdAt saved = DraftEntity.createdAt old \<and>
      DraftEntity.createdBy saved = DraftEntity.createdBy old \<and>
      DraftEntity.content saved = orElse (UpdateDraftDto.content dto) (DraftEntity.content old) \<and>
      DraftEntity.blog saved = orElse (UpdateDraftDto.blogId dto) (DraftEntity.blog old) \<and>
      (saved = old \<or> DraftEntity.updatedAt saved = now) \<and>
      db' = db\<lparr>drafts := map (\<lambda>d. if DraftEntity.id d = i then saved else d) (drafts db)\<rparr>"
proof -
  from assms(2) obtain old where
    f: "find (\<lambda>d. DraftEntity.id d = i \<and> DraftEntity.createdBy d = userId) (drafts db) = Some old"
    by (auto simp: DraftService_updateDraft_def DraftService_getDraftById_def
        DraftRepository_findById_def catchBlock_def split: option.splits)
  from find_SomeD [OF f] have old: "old \<in> set (drafts db)" "DraftEntity.id old = i"
    "DraftEntity.createdBy old = userId" by auto
  define e where "e = DraftRepository_merge old
               \<lparr>DeepPartial_DraftEntity.content = UpdateDraftDto.content dto,
                DeepPartial_DraftEntity.blog = UpdateDraftDto.blogId dto,
                DeepPartial_DraftEntity.createdBy = Some userId\<rparr>"
  have e: "DraftEntity.id e = DraftEntity.id old"
    "DraftEntity.createdAt e = DraftEntity.createdAt old"
    "DraftEntity.createdBy e = DraftEntity.createdBy old"
    "DraftEntity.content e = orElse (UpdateDraftDto.content dto) (DraftEntity.content old)"
    "DraftEntity.blog e = orElse (UpdateDraftDto.blogId dto) (DraftEntity.blog old)"
    using old(3) by (simp_all add: e_def DraftRepository_merge_def orElse_def)
  from assms(2) f have "DraftRepository_save db now e = Inr (saved, db')"
    by (simp add: DraftService_updateDraft_def DraftService_getDraftById_def
        DraftRepository_findById_def e_def)
  then have s: "(saved = e \<and> saved = old \<or> saved = e\<lparr>DraftEntity.updatedAt := now\<rparr>) \<and>
      db' = db\<lparr>drafts := map (\<lambda>d. if DraftEntity.id d = i then saved else d) (drafts db)\<rparr>"
    unfolding DraftRepository_save_def upsert_loaded [OF assms(1) old(1) e(1)] old(2)
    by (auto split: if_splits)
  then have t: "saved = old \<or> DraftEntity.updatedAt saved = now"
    by auto
  from s have "DraftEntity.id saved = DraftEntity.id e"
    "DraftEntity.createdAt saved = DraftEntity.createdAt e"
    "DraftEntity.createdBy saved = DraftEntity.createdBy e"
    "DraftEntity.content saved = DraftEntity.content e"
    "DraftEntity.blog saved = DraftEntity.blog e"
    by auto
  with e s t old show ?thesis
    by (intro bexI [of _ old]) simp_all
qed

lemma updateTag_frame:
  assumes "distinct (map TagEntity.id (tags db))"
    and "TagService_updateTag db now i dto = Inr (saved, db')"
  shows "\<exists>old\<in>set (tags db). TagEntity.id old = i \<and>
      TagEntity.id saved = TagEntity.id old \<and>
      TagEntity.createdAt saved = TagEntity.createdAt old \<and>
      TagEntity.name saved = orElse (UpdateTagDto.name dto) (TagEntity.name old) \<and>
      (saved = old \<or> TagEntity.updatedAt saved = now) \<and>
      db' = db\<lparr>tags := map (\<lambda>t. if TagEntity.id t = i then saved else t) (tags db)\<rparr>"
proof -
  from assms(2) obtain old where
    f: "find (\<lambda>t. TagEntity.id t = i) (tags db) = Some old"
    by (auto simp: TagService_updateTag_def TagService_getTagById_def
        TagRepository_findById_def catchBlock_def split: option.splits)
  from find_SomeD [OF f] have old: "old \<in> set (tags db)" "TagEntity.id old = i"
    by auto
  define e where "e = TagRepository_merge old
               \<lparr>DeepPartial_TagEntity.name = UpdateTagDto.name dto\<rparr>"
  have e: "TagEntity.id e = TagEntity.id old"
    "TagEntity.createdAt e = TagEntity.createdAt old"
    "TagEntity.name e = orElse (UpdateTagDto.name dto) (TagEntity.name old)"
    by (simp_all add: e_def TagRepository_merge_def orElse_def)
  from assms(2) f have "TagRepository_save db now e = Inr (saved, db')"
    by (simp add: TagService_updateTag_def TagService_getTagById_def
        TagRepository_findById_def e_def)
  then have s: "(saved = e \<and> saved = old \<or> saved = e\<lparr>TagEntity.updatedAt := now\<rparr>) \<and>
      db' = db\<lparr>tags := map (\<lambda>t. if TagEntity.id t = i then saved else t) (tags db)\<rparr>"
    unfolding TagRepository_save_def upsert_loaded [OF assms(1) old(1) e(1)] old(2)
    by (auto split: if_splits)
  then have t: "saved = old \<or> TagEntity.updatedAt saved = now"
    by auto
  from s have "TagEntity.id saved = TagEntity.id e"
    "TagEntity.createdAt saved = TagEntity.createdAt e"
    "TagEntity.name saved = TagEntity.name e"
    by auto
  with e s t old show ?thesis
    by (intro bexI [of _ old]) simp_all
qed

lemma update_not_found:
  "BlogRepository_findById db userId i = Inr None \<Longrightarrow>
   BlogService_updateBlog db now userId i blogDto =
     Inl (BadRequestException ''BlogEntity not found'' None)"
  "DraftRepository_findById db userId i = Inr None \<Longrightarrow>
   DraftService_updateDraft db now userId i draftDto =
     Inl (BadRequestException ''DraftEntity not found'' None)"
  "TagRepository_findById db i = Inr None \<Longrightarrow>
   TagService_updateTag db now i tagDto =
     Inl (BadRequestException ''TagEntity not found'' None)"
  by (simp_all add: BlogService_updateBlog_def BlogService_getBlogById_def
      DraftService_updateDraft_def DraftService_getDraftById_def
      TagService_updateTag_def TagService_getTagById_def catchBlock_def)

text \<open>
  C3 as stated fails on the update timestamp: user 1 renames the own blog 1 at time 99 and
  specifies no other field, and the stored record's \<open>updatedAt\<close> changes from 10 to 99.
\<close>

theorem update_changes_updatedAt:
  "BlogService_updateBlog example_db 99 1 1
     \<lparr>UpdateBlogDto.title = Some ''New'', content = None, published = None\<rparr> =
     Inr (blog1\<lparr>BlogEntity.title := ''New'', BlogEntity.updatedAt := 99\<rparr>,
          example_db\<lparr>blogs :=
            [blog1\<lparr>BlogEntity.title := ''New'', BlogEntity.updatedAt := 99\<rparr>, blog2, blog3]\<rparr>) \<and>
   BlogEntity.updatedAt blog1 = 10 \<and>
   BlogEntity.updatedAt (blog1\<lparr>BlogEntity.title := ''New'', BlogEntity.updatedAt := 99\<rparr>) = 99"
proof -
  have a: "BlogService_updateBlog example_db 99 1 1
     \<lparr>UpdateBlogDto.title = Some ''New'', content = None, published = None\<rparr> =
     Inr (blog1\<lparr>BlogEntity.title := ''New'', BlogEntity.updatedAt := 99\<rparr>,
          example_db\<lparr>blogs :=
            [blog1\<lparr>BlogEntity.title := ''New'', BlogEntity.updatedAt := 99\<rparr>, blog2, blog3]\<rparr>)"
    by code_simp
  have b: "BlogEntity.updatedAt blog1 = 10"
    "BlogEntity.updatedAt (blog1\<lparr>BlogEntity.title := ''New'', BlogEntity.updatedAt := 99\<rparr>) = 99"
    by (simp_all add: blog1_def)
  show ?thesis by (intro conjI a b)
qed

text \<open>
  C3, amended, for blogs, drafts and tags.  When the scoped lookup finds no record, the
  update fails with the bad request that carries the not-found message.  When the ids of
  the table are unique and the update returns, the record \<open>old\<close> with the given id (and the
  calling owner) was in the table, the saved record has the id, the creation time and the
  owner of \<open>old\<close>, each field of the request that is given has the given value and each that
  is not given has the value of \<open>old\<close> (a draft's blog among them), and the table is the old
  one with that record replaced.  The update timestamp is the exception: unless the saved
  record is \<open>old\<close> unchanged, it is the time of the save.
\<close>

theorem update_keeps_unspecified_fields:
  "(distinct (map BlogEntity.id (blogs db)) \<and>
    BlogService_updateBlog db now userId i blogDto = Inr (savedBlog, db1) \<longrightarrow>
      (\<exists>old\<in>set (blogs db). BlogEntity.id old = i \<and> BlogEntity.author old = userId \<and>
         BlogEntity.id savedBlog = BlogEntity.id old \<and>
         BlogEntity.createdAt savedBlog = BlogEntity.createdAt old \<and>
         BlogEntity.author savedBlog = BlogEntity.author old \<and>
         BlogEntity.title savedBlog = orElse (UpdateBlogDto.title blogDto) (BlogEntity.title old) \<and>
         BlogEntity.content savedBlog =
           orElse (UpdateBlogDto.content blogDto) (BlogEntity.content old) \<and>
         BlogEntity.published savedBlog =
           orElse (UpdateBlogDto.published blogDto) (BlogEntity.published old) \<and>
         (savedBlog = old \<or> BlogEntity.updatedAt savedBlog = now) \<and>
         db1 = db\<lparr>blogs :=
                 map (\<lambda>b. if BlogEntity.id b = i then savedBlog else b) (blogs db)\<rparr>)) \<and>
   (BlogRepository_findById db userId i = Inr None \<longrightarrow>
      BlogService_updateBlog db now userId i blogDto =
        Inl (BadRequestException ''BlogEntity not found'' None)) \<and>
   (distinct (map DraftEntity.id (drafts db)) \<and>
    DraftService_updateDraft db now userId i draftDto = Inr (savedDraft, db2) \<longrightarrow>
      (\<exists>old\<in>set (drafts db). DraftEntity.id old = i \<and> DraftEntity.createdBy old = userId \<and>
         DraftEntity.id savedDraft = DraftEntity.id old \<and>
         DraftEntity.createdAt savedDraft = DraftEntity.createdAt old \<and>
         DraftEntity.createdBy savedDraft = DraftEntity.createdBy old \<and>
         DraftEntity.content savedDraft =
           orElse (UpdateDraftDto.content draftDto) (DraftEntity.content old) \<and>
         DraftEntity.blog savedDraft =
           orElse (UpdateDraftDto.blogId draftDto) (DraftEntity.blog old) \<and>
         (savedDraft = old \<or> DraftEntity.updatedAt savedDraft = now) \<and>
         db2 = db\<lparr>drafts :=
                 map (\<lambda>d. if DraftEntity.id d = i then savedDraft else d) (drafts db)\<rparr>)) \<and>
   (DraftRepository_findById db userId i = Inr None \<longrightarrow>
      DraftService_updateDraft db now userId i draftDto =
        Inl (BadRequestException ''DraftEntity not found'' None)) \<and>
   (distinct (map TagEntity.id (tags db)) \<and>
    TagService_updateTag db now i tagDto = Inr (savedTag, db3) \<longrightarrow>
      (\<exists>old\<in>set (tags db). TagEntity.id old = i \<and>
         TagEntity.id savedTag = TagEntity.id old \<and>
         TagEntity.createdAt savedTag = TagEntity.createdAt old \<and>
         TagEntity.name savedTag = orElse (UpdateTagDto.name tagDto) (TagEntity.name old) \<and>
         (savedTag = old \<or> TagEntity.updatedAt savedTag = now) \<and>
         db3 = db\<lparr>tags := map (\<lambda>t. if TagEntity.id t = i then savedTag else t) (tags db)\<rparr>)) \<and>
   (TagRepository_findById db i = Inr None \<longrightarrow>
      TagService_updateTag db now i tagDto =
        Inl (BadRequestException ''TagEntity not found'' None))"
proof (intro conjI impI)
  assume "distinct (map BlogEntity.id (blogs db)) \<and>
    BlogService_updateBlog db now userId i blogDto = Inr (savedBlog, db1)"
  then show "\<exists>old\<in>set (blogs db). BlogEntity.id old = i \<and> BlogEntity.author old = userId \<and>
         BlogEntity.id savedBlog = BlogEntity.id old \<and>
         BlogEntity.createdAt savedBlog = BlogEntity.createdAt old \<and>
         BlogEntity.author savedBlog = BlogEntity.author old \<and>
         BlogEntity.title savedBlog = orElse (UpdateBlogDto.title blogDto) (BlogEntity.title old) \<and>
         BlogEntity.content savedBlog =
           orElse (UpdateBlogDto.content blogDto) (BlogEntity.content old) \<and>
         BlogEntity.published savedBlog =
           orElse (UpdateBlogDto.published blogDto) (BlogEntity.published old) \<and>
         (savedBlog = old \<or> BlogEntity.updatedAt savedBlog = now) \<and>
         db1 = db\<lparr>blogs :=
                 map (\<lambda>b. if BlogEntity.id b = i then savedBlog else b) (blogs db)\<rparr>"
    by (intro updateBlog_frame) simp_all
next
  assume "distinct (map DraftEntity.id (drafts db)) \<and>
    DraftService_updateDraft db now userId i draftDto = Inr (savedDraft, db2)"
  then show "\<exists>old\<in>set (drafts db). DraftEntity.id old = i \<and>
         DraftEntity.createdBy old = userId \<and>
         DraftEntity.id savedDraft = DraftEntity.id old \<and>
         DraftEntity.createdAt savedDraft = DraftEntity.createdAt old \<and>
         DraftEntity.createdBy savedDraft = DraftEntity.createdBy old \<and>
         DraftEntity.content savedDraft =
           orElse (UpdateDraftDto.content draftDto) (DraftEntity.content old) \<and>
         DraftEntity.blog savedDraft =
           orElse (UpdateDraftDto.blogId draftDto) (DraftEntity.blog old) \<and>
         (savedDraft = old \<or> DraftEntity.updatedAt savedDraft = now) \<and>
         db2 = db\<lparr>drafts :=
                 map (\<lambda>d. if DraftEntity.id d = i then savedDraft else d) (drafts db)\<rparr>"
    by (intro updateDraft_frame) simp_all
next
  assume "distinct (map TagEntity.id (tags db)) \<and>
    TagService_updateTag db now i tagDto = Inr (savedTag, db3)"
  then show "\<exists>old\<in>set (tags db). TagEntity.id old = i \<and>
         TagEntity.id savedTag = TagEntity.id old \<and>
         TagEntity.createdAt savedTag = TagEntity.createdAt old \<and>
         TagEntity.name savedTag = orElse (UpdateTagDto.name tagDto) (TagEntity.name old) \<and>
         (savedTag = old \<or> TagEntity.updatedAt savedTag = now) \<and>
         db3 = db\<lparr>tags := map (\<lambda>t. if TagEntity.id t = i then savedTag else t) (tags db)\<rparr>"
    by (intro updateTag_frame) simp_all
qed (simp_all add: update_not_found)

theorem update_keeps_unspecified_fields_witness:
  "BlogService_updateBlog example_db 99 1 1
     \<lparr>UpdateBlogDto.title = None, content = Some ''rewritten'', published = None\<rparr> =
     Inr (blog1\<lparr>BlogEntity.content := ''rewritten'', BlogEntity.updatedAt := 99\<rparr>,
          example_db\<lparr>blogs :=
            [blog1\<lparr>BlogEntity.content := ''rewritten'', BlogEntity.updatedAt := 99\<rparr>,
             blog2, blog3]\<rparr>) \<and>
   BlogEntity.title (blog1\<lparr>BlogEntity.content := ''rewritten'', BlogEntity.updatedAt := 99\<rparr>) =
     BlogEntity.title blog1 \<and>
   DraftService_updateDraft example_db 99 1 1
     \<lparr>blogId = None, UpdateDraftDto.content = Some ''rewritten''\<rparr> =
     Inr (draft1\<lparr>DraftEntity.content := ''rewritten'', DraftEntity.updatedAt := 99\<rparr>,
          example_db\<lparr>drafts :=
            [draft1\<lparr>DraftEntity.content := ''rewritten'', DraftEntity.updatedAt := 99\<rparr>,
             draft2]\<rparr>) \<and>
   DraftEntity.blog (draft1\<lparr>DraftEntity.content := ''rewritten'', DraftEntity.updatedAt := 99\<rparr>) =
     DraftEntity.blog draft1 \<and>
   TagService_updateTag example_db 99 2 \<lparr>UpdateTagDto.name = None\<rparr> =
     Inr (tag_row 2 ''django'', example_db) \<and>
   BlogService_updateBlog example_db 99 1 2
     \<lparr>UpdateBlogDto.title = None, content = Some ''rewritten'', published = None\<rparr> =
     Inl (BadRequestException ''BlogEntity not found'' None) \<and>
   DraftService_updateDraft example_db 99 1 2
     \<lparr>blogId = None, UpdateDraftDto.content = Some ''rewritten''\<rparr> =
     Inl (BadRequestException ''DraftEntity not found'' None) \<and>
   TagService_updateTag example_db 99 9 \<lparr>UpdateTagDto.name = None\<rparr> =
     Inl (BadRequestException ''TagEntity not found'' None)"
proof -
  let ?b = "\<lparr>UpdateBlogDto.title = None, content = Some ''rewritten'', published = None\<rparr>"
  let ?d = "\<lparr>blogId = None, UpdateDraftDto.content = Some ''rewritten''\<rparr>"
  let ?t = "\<lparr>UpdateTagDto.name = None\<rparr>"
  have a: "BlogService_updateBlog example_db 99 1 1 ?b =
     Inr (blog1\<lparr>BlogEntity.content := ''rewritten'', BlogEntity.updatedAt := 99\<rparr>,
          example_db\<lparr>blogs :=
            [blog1\<lparr>BlogEntity.content := ''rewritten'', BlogEntity.updatedAt := 99\<rparr>,
             blog2, blog3]\<rparr>)"
    by code_simp
  have b: "DraftService_updateDraft example_db 99 1 1 ?d =
     Inr (draft1\<lparr>DraftEntity.content := ''rewritten'', DraftEntity.updatedAt := 99\<rparr>,
          example_db\<lparr>drafts :=
            [draft1\<lparr>DraftEntity.content := ''rewritten'', DraftEntity.updatedAt := 99\<rparr>,
             draft2]\<rparr>)"
    by code_simp
  have c: "TagService_updateTag example_db 99 2 ?t = Inr (tag_row 2 ''django'', example_db)"
    by code_simp
  have n: "BlogRepository_findById example_db 1 2 = Inr None"
    "DraftRepository_findById example_db 1 2 = Inr None"
    by code_simp+
  have n': "TagRepository_findById example_db 9 = Inr None"
    by code_simp
  have u: "distinct (map BlogEntity.id (blogs example_db))"
    "distinct (map DraftEntity.id (drafts example_db))"
    "distinct (map TagEntity.id (tags example_db))"
    by code_simp+
  note w0 = update_keeps_unspecified_fields
      [of example_db 99 1 1 ?b
        "blog1\<lparr>BlogEntity.content := ''rewritten'', BlogEntity.updatedAt := 99\<rparr>"
        "example_db\<lparr>blogs :=
            [blog1\<lparr>BlogEntity.content := ''rewritten'', BlogEntity.updatedAt := 99\<rparr>,
             blog2, blog3]\<rparr>" ?d
        "draft1\<lparr>DraftEntity.content := ''rewritten'', DraftEntity.updatedAt := 99\<rparr>"
        "example_db\<lparr>drafts :=
            [draft1\<lparr>DraftEntity.content := ''rewritten'', DraftEntity.updatedAt := 99\<rparr>,
             draft2]\<rparr>"]
  from w0 [THEN conjunct1, THEN mp, OF conjI [OF u(1) a]]
  have f1: "BlogEntity.title
      (blog1\<lparr>BlogEntity.content := ''rewritten'', BlogEntity.updatedAt := 99\<rparr>) =
     BlogEntity.title blog1"
    by (auto simp: example_db_def blog1_def blog2_def blog3_def orElse_def)
  from w0 [THEN conjunct2, THEN conjunct2, THEN conjunct1, THEN mp, OF conjI [OF u(2) b]]
  have f2: "DraftEntity.blog
      (draft1\<lparr>DraftEntity.content := ''rewritten'', DraftEntity.updatedAt := 99\<rparr>) =
     DraftEntity.blog draft1"
    by (auto simp: example_db_def draft1_def draft2_def orElse_def)
  note f = f1 f2
  note w1 = update_keeps_unspecified_fields [of example_db 99 1 2 ?b _ _ ?d _ _ ?t]
  from w1 n have nb: "BlogService_updateBlog example_db 99 1 2 ?b =
     Inl (BadRequestException ''BlogEntity not found'' None)"
    by blast
  from w1 n have nd: "DraftService_updateDraft example_db 99 1 2 ?d =
     Inl (BadRequestException ''DraftEntity not found'' None)"
    by blast
  from update_keeps_unspecified_fields [of example_db 99 1 9 ?b _ _ ?d _ _ ?t] n'
  have nt: "TagService_updateTag example_db 99 9 ?t =
     Inl (BadRequestException ''TagEntity not found'' None)"
    by blast
  show ?thesis by (intro conjI a b c nb nd nt f)
qed


end
